theory Spec2Isabelle
  imports Main
begin

section \<open>Query subclasses: the data the slice works on\<close>

text \<open>
  A shallow embedding of \<^verbatim>\<open>django/db/models/sql/subqueries.py\<close> and of
  \<^verbatim>\<open>django/contrib/gis/db/models/sql/subqueries.py\<close>. Methods take the query they
  are called on (Python's \<^verbatim>\<open>self\<close>) and return it updated. The base class
  \<^verbatim>\<open>Query\<close>, the SQL compilers, the where tree and the model metadata are
  collaborators that live elsewhere: what this slice calls on them is either recorded
  (a call to a compiler becomes an event of a trace) or taken as a parameter.
  The constructors of \<^verbatim>\<open>UpdateQuery\<close>, the \<^verbatim>\<open>clone\<close> methods and
  \<^verbatim>\<open>get_related_updates\<close> only initialise, copy or read attributes through the
  base class; no property below is about them and they are left out.
\<close>

subsection \<open>Python values and errors\<close>

datatype pyval = PyNone | PyBool bool | PyInt int | PyStr string | PyList "pyval list"

record Field =
  name :: string
  column :: string
  m2m_db_table :: string
  m2m_column_name :: string
  m2m_reverse_name :: string
  content_type_field_name :: string
  is_GenericRelation :: bool

text \<open>
  \<^verbatim>\<open>FieldError\<close> is the one exception the slice raises with a \<^verbatim>\<open>raise\<close>
  statement; its message names the field. \<^verbatim>\<open>FieldDoesNotExist\<close> is the exception of
  the model metadata's field lookup for a name the model does not have; the slice calls
  the lookup outside any \<^verbatim>\<open>try\<close>, so it leaves the calling method.
  \<^verbatim>\<open>ValueError\<close> is what \<^verbatim>\<open>range\<close> raises for a zero step and
  \<^verbatim>\<open>IndexError\<close> what \<^verbatim>\<open>xs[-1]\<close> raises on an empty list.
\<close>

datatype error = FieldError Field | FieldDoesNotExist string | ValueError | IndexError

subsection \<open>Model metadata\<close>

text \<open>
  \<^verbatim>\<open>related_objects\<close> stands for what
  \<^verbatim>\<open>get_all_related_many_to_many_objects()\<close> returns (each related object is
  read only through its \<^verbatim>\<open>field\<close>).
\<close>

record Options =
  pk :: Field
  db_table :: string
  many_to_many :: "Field list"
  related_objects :: "Field list"

record Model =
  model_name :: string
  meta :: Options

subsection \<open>Where nodes\<close>

text \<open>
  \<^verbatim>\<open>where_class\<close> belongs to the base query layer. A where node is represented
  by the data added to it, in the order of the \<^verbatim>\<open>add\<close> calls, each with its
  connector: that is all this slice decides about it.
\<close>

record Constraint =
  constraint_alias :: "string option"
  constraint_col :: string
  constraint_field :: Field

datatype connector = AND | OR

datatype where_node = WhereNode (children: "(where_data \<times> connector) list")
  and where_data = Lookup Constraint string pyval | Subtree where_node

definition where_class :: where_node where
  "where_class = WhereNode []"

definition add :: "where_data \<Rightarrow> connector \<Rightarrow> where_node \<Rightarrow> where_node" where
  "add data conn w = WhereNode (children w @ [(data, conn)])"

subsection \<open>The base query and the trace of compiler calls\<close>

datatype select_item = Col string string | Date "string \<times> string" string

text \<open>
  The attributes of the base \<^verbatim>\<open>Query\<close> that this slice assigns. Every other
  attribute of a query is in the record's extension.
\<close>

record Query =
  model :: Model
  tables :: "string list"
  where_q :: where_node
  select :: "select_item list"
  select_fields :: "Field option list"
  select_related :: bool
  distinct_q :: bool
  order_by :: "int list"

type_synonym db_alias = "string option"

text \<open>
  A call \<^verbatim>\<open>get_compiler(using).execute_sql(arg)\<close> on a query is the event
  \<open>ExecuteSql compiler using query arg\<close>, with the query as it is at the time of the
  call; \<^verbatim>\<open>get_compiler(using).as_sql(with_col_aliases=b)\<close> is \<open>AsSql\<close>.
  The compiler is named by the class attribute \<^verbatim>\<open>compiler\<close>.
\<close>

datatype 'q event =
    ExecuteSql string db_alias 'q pyval
  | AsSql string db_alias 'q bool

type_synonym 'q state = "'q \<times> 'q event list"

definition execute_sql :: "string \<Rightarrow> db_alias \<Rightarrow> pyval \<Rightarrow> 'q state \<Rightarrow> 'q state" where
  "execute_sql compiler using arg st = (fst st, snd st @ [ExecuteSql compiler using (fst st) arg])"

subsection \<open>range and slices\<close>

function range_up :: "int \<Rightarrow> int \<Rightarrow> int \<Rightarrow> int list" where
  "range_up start stop step =
     (if 0 < step \<and> start < stop then start # range_up (start + step) stop step else [])"
  by pat_completeness auto
termination
  by (relation "measure (\<lambda>(start, stop, step). nat (stop - start))") auto

function range_down :: "int \<Rightarrow> int \<Rightarrow> int \<Rightarrow> int list" where
  "range_down start stop step =
     (if step < 0 \<and> stop < start then start # range_down (start + step) stop step else [])"
  by pat_completeness auto
termination
  by (relation "measure (\<lambda>(start, stop, step). nat (start - stop))") auto

declare range_up.simps [simp del] range_down.simps [simp del]

definition py_range :: "int \<Rightarrow> int \<Rightarrow> int \<Rightarrow> error + int list" where
  "py_range start stop step =
     (if step = 0 then Inl ValueError
      else if 0 < step then Inr (range_up start stop step)
      else Inr (range_down start stop step))"

text \<open>\<^verbatim>\<open>xs[i:j]\<close>: a negative bound counts from the end, and both are clipped.\<close>

definition slice_bound :: "int \<Rightarrow> int \<Rightarrow> int" where
  "slice_bound n k = (if k < 0 then max 0 (k + n) else min k n)"

definition py_slice :: "'a list \<Rightarrow> int \<Rightarrow> int \<Rightarrow> 'a list" where
  "py_slice xs i j =
     (let n = int (length xs); a = slice_bound n i; b = slice_bound n j
      in take (nat (b - a)) (drop (nat a) xs))"

text \<open>A \<^verbatim>\<open>for\<close> loop whose body may raise: the first error ends it.\<close>

fun for_each :: "('a \<Rightarrow> 's \<Rightarrow> error + 's) \<Rightarrow> 'a list \<Rightarrow> 's \<Rightarrow> error + 's" where
  "for_each body [] s = Inr s"
| "for_each body (x # xs) s =
     (case body x s of Inl e \<Rightarrow> Inl e | Inr s' \<Rightarrow> for_each body xs s')"

section \<open>DeleteQuery\<close>

definition DeleteQuery_compiler :: string where
  "DeleteQuery_compiler = ''SQLDeleteCompiler''"

definition do_query ::
  "string \<Rightarrow> where_node \<Rightarrow> db_alias \<Rightarrow> ('z Query_scheme) state \<Rightarrow> ('z Query_scheme) state" where
  "do_query table wh using st =
     (let st1 = (fst st\<lparr>tables := [table]\<rparr>, snd st);
          st2 = (fst st1\<lparr>where_q := wh\<rparr>, snd st1)
      in execute_sql DeleteQuery_compiler using PyNone st2)"

text \<open>The body of the loop of \<^verbatim>\<open>delete_batch\<close>, for one offset.\<close>

definition delete_batch_body ::
  "int \<Rightarrow> pyval list \<Rightarrow> db_alias \<Rightarrow> int \<Rightarrow> ('z Query_scheme) state \<Rightarrow> ('z Query_scheme) state" where
  "delete_batch_body GET_ITERATOR_CHUNK_SIZE pk_list using offset st =
     (let wh = where_class;
          f = pk (meta (model (fst st)));
          wh = add (Lookup \<lparr>constraint_alias = None, constraint_col = column f, constraint_field = f\<rparr> ''in''
                 (PyList (py_slice pk_list offset (offset + GET_ITERATOR_CHUNK_SIZE)))) AND wh
      in do_query (db_table (meta (model (fst st)))) wh using st)"

definition delete_batch ::
  "int \<Rightarrow> pyval list \<Rightarrow> db_alias \<Rightarrow> ('z Query_scheme) state \<Rightarrow> error + ('z Query_scheme) state" where
  "delete_batch GET_ITERATOR_CHUNK_SIZE pk_list using st =
     (case py_range 0 (int (length pk_list)) GET_ITERATOR_CHUNK_SIZE of
        Inl e \<Rightarrow> Inl e
      | Inr offsets \<Rightarrow>
          Inr (fold (delete_batch_body GET_ITERATOR_CHUNK_SIZE pk_list using) offsets st))"

text \<open>
  \<^verbatim>\<open>delete_batch_related\<close>. Three things it reads are not of this slice and are
  parameters: \<open>get_field\<close> is \<^verbatim>\<open>f.rel.to._meta.get_field\<close>,
  \<open>content_type_id\<close> is \<^verbatim>\<open>ContentType.objects.get_for_model(cls).id\<close> and
  \<open>nonzero\<close> is the truth value of a where node (\<^verbatim>\<open>if w1:\<close>).
\<close>

definition related_body ::
  "int \<Rightarrow> pyval list \<Rightarrow> db_alias \<Rightarrow> Field \<Rightarrow> int \<Rightarrow> ('z Query_scheme) state
     \<Rightarrow> error + ('z Query_scheme) state" where
  "related_body GET_ITERATOR_CHUNK_SIZE pk_list using related_field offset st =
     (let wh = where_class;
          wh = add (Lookup \<lparr>constraint_alias = None,
                            constraint_col = m2m_reverse_name related_field,
                            constraint_field = related_field\<rparr> ''in''
                 (PyList (py_slice pk_list offset (offset + GET_ITERATOR_CHUNK_SIZE)))) AND wh
      in Inr (do_query (m2m_db_table related_field) wh using st))"

definition related_loop ::
  "int \<Rightarrow> pyval list \<Rightarrow> db_alias \<Rightarrow> Field \<Rightarrow> ('z Query_scheme) state
     \<Rightarrow> error + ('z Query_scheme) state" where
  "related_loop GET_ITERATOR_CHUNK_SIZE pk_list using related_field st =
     (if \<not> is_GenericRelation related_field then
        (case py_range 0 (int (length pk_list)) GET_ITERATOR_CHUNK_SIZE of
           Inl e \<Rightarrow> Inl e
         | Inr offsets \<Rightarrow>
             for_each (related_body GET_ITERATOR_CHUNK_SIZE pk_list using related_field) offsets st)
      else Inr st)"

definition m2m_body ::
  "int \<Rightarrow> (where_node \<Rightarrow> bool) \<Rightarrow> pyval list \<Rightarrow> db_alias \<Rightarrow> Field \<Rightarrow> where_node \<Rightarrow> int
     \<Rightarrow> ('z Query_scheme) state \<Rightarrow> error + ('z Query_scheme) state" where
  "m2m_body GET_ITERATOR_CHUNK_SIZE nonzero pk_list using f w1 offset st =
     (let wh = where_class;
          wh = add (Lookup \<lparr>constraint_alias = None,
                            constraint_col = m2m_column_name f,
                            constraint_field = f\<rparr> ''in''
                 (PyList (py_slice pk_list offset (offset + GET_ITERATOR_CHUNK_SIZE)))) AND wh;
          wh = (if nonzero w1 then add (Subtree w1) AND wh else wh)
      in Inr (do_query (m2m_db_table f) wh using st))"

definition m2m_loop ::
  "int \<Rightarrow> (Field \<Rightarrow> string \<Rightarrow> Field) \<Rightarrow> (Model \<Rightarrow> pyval) \<Rightarrow> (where_node \<Rightarrow> bool) \<Rightarrow> Model
     \<Rightarrow> pyval list \<Rightarrow> db_alias \<Rightarrow> Field \<Rightarrow> ('z Query_scheme) state
     \<Rightarrow> error + ('z Query_scheme) state" where
  "m2m_loop GET_ITERATOR_CHUNK_SIZE get_field content_type_id nonzero cls pk_list using f st =
     (let w1 = where_class;
          w1 = (if is_GenericRelation f then
                  (let fld = get_field f (content_type_field_name f)
                   in add (Lookup \<lparr>constraint_alias = None, constraint_col = column fld,
                                    constraint_field = fld\<rparr> ''exact'' (content_type_id cls)) AND w1)
                else w1)
      in case py_range 0 (int (length pk_list)) GET_ITERATOR_CHUNK_SIZE of
           Inl e \<Rightarrow> Inl e
         | Inr offsets \<Rightarrow>
             for_each (m2m_body GET_ITERATOR_CHUNK_SIZE nonzero pk_list using f w1) offsets st)"

definition delete_batch_related ::
  "int \<Rightarrow> (Field \<Rightarrow> string \<Rightarrow> Field) \<Rightarrow> (Model \<Rightarrow> pyval) \<Rightarrow> (where_node \<Rightarrow> bool)
     \<Rightarrow> pyval list \<Rightarrow> db_alias \<Rightarrow> ('z Query_scheme) state \<Rightarrow> error + ('z Query_scheme) state" where
  "delete_batch_related GET_ITERATOR_CHUNK_SIZE get_field content_type_id nonzero pk_list using st =
     (let cls = model (fst st)
      in case for_each (related_loop GET_ITERATOR_CHUNK_SIZE pk_list using)
                (related_objects (meta cls)) st of
           Inl e \<Rightarrow> Inl e
         | Inr st' \<Rightarrow>
             for_each (m2m_loop GET_ITERATOR_CHUNK_SIZE get_field content_type_id nonzero cls
                         pk_list using)
               (many_to_many (meta cls)) st')"

section \<open>UpdateQuery\<close>

type_synonym update_triple = "Field \<times> Model option \<times> pyval"

record UpdateQuery = Query +
  values_upd :: "update_triple list"
  related_ids :: "pyval option"
  related_updates :: "Model \<rightharpoonup> update_triple list"

definition UpdateQuery_compiler :: string where
  "UpdateQuery_compiler = ''SQLUpdateCompiler''"

definition clear_related_body ::
  "int \<Rightarrow> Field \<Rightarrow> pyval list \<Rightarrow> db_alias \<Rightarrow> int \<Rightarrow> ('z UpdateQuery_scheme) state
     \<Rightarrow> ('z UpdateQuery_scheme) state" where
  "clear_related_body GET_ITERATOR_CHUNK_SIZE related_field pk_list using offset st =
     (let st1 = (fst st\<lparr>where_q := where_class\<rparr>, snd st);
          f = pk (meta (model (fst st1)));
          st2 = (fst st1\<lparr>where_q :=
                   add (Lookup \<lparr>constraint_alias = None, constraint_col = column f,
                                 constraint_field = f\<rparr> ''in''
                          (PyList (py_slice pk_list offset (offset + GET_ITERATOR_CHUNK_SIZE))))
                       AND (where_q (fst st1))\<rparr>, snd st1);
          st3 = (fst st2\<lparr>values_upd := [(related_field, None, PyNone)]\<rparr>, snd st2)
      in execute_sql UpdateQuery_compiler using PyNone st3)"

definition clear_related ::
  "int \<Rightarrow> Field \<Rightarrow> pyval list \<Rightarrow> db_alias \<Rightarrow> ('z UpdateQuery_scheme) state
     \<Rightarrow> error + ('z UpdateQuery_scheme) state" where
  "clear_related GET_ITERATOR_CHUNK_SIZE related_field pk_list using st =
     (case py_range 0 (int (length pk_list)) GET_ITERATOR_CHUNK_SIZE of
        Inl e \<Rightarrow> Inl e
      | Inr offsets \<Rightarrow>
          Inr (fold (clear_related_body GET_ITERATOR_CHUNK_SIZE related_field pk_list using)
                 offsets st))"

definition add_update_fields ::
  "update_triple list \<Rightarrow> 'z UpdateQuery_scheme \<Rightarrow> 'z UpdateQuery_scheme" where
  "add_update_fields values_seq q = q\<lparr>values_upd := values_upd q @ values_seq\<rparr>"

definition add_related_update ::
  "Model \<Rightarrow> Field \<Rightarrow> pyval \<Rightarrow> 'z UpdateQuery_scheme \<Rightarrow> 'z UpdateQuery_scheme" where
  "add_related_update mdl fld val q =
     (case related_updates q mdl of
        Some triples \<Rightarrow> q\<lparr>related_updates := (related_updates q)(mdl \<mapsto> triples @ [(fld, None, val)])\<rparr>
      | None \<Rightarrow> q\<lparr>related_updates := (related_updates q)(mdl \<mapsto> [(fld, None, val)])\<rparr>)"

text \<open>
  \<^verbatim>\<open>add_update_values\<close>. The dictionary is given as its items in the order
  \<^verbatim>\<open>iteritems()\<close> yields them. \<open>get_field_by_name\<close> is the method of the
  model's \<^verbatim>\<open>_meta\<close>: it returns \<open>Inr (field, model, direct, m2m)\<close>, or
  \<open>Inl e\<close> when it raises \<open>e\<close>, and what it raises leaves
  \<^verbatim>\<open>add_update_values\<close> too. A raise leaves the query as the loop has changed it so
  far: \<open>Inl (e, q)\<close> is the exception \<open>e\<close> with the query \<open>q\<close> it leaves behind.
\<close>

fun add_update_values_loop ::
  "(Options \<Rightarrow> string \<Rightarrow> error + Field \<times> Model option \<times> bool \<times> bool)
     \<Rightarrow> (string \<times> pyval) list \<Rightarrow> update_triple list \<Rightarrow> 'z UpdateQuery_scheme
     \<Rightarrow> (error \<times> 'z UpdateQuery_scheme) + (update_triple list \<times> 'z UpdateQuery_scheme)" where
  "add_update_values_loop get_field_by_name [] values_seq q = Inr (values_seq, q)"
| "add_update_values_loop get_field_by_name ((nm, val) # items) values_seq q =
     (case get_field_by_name (meta (model q)) nm of
        Inl e \<Rightarrow> Inl (e, q)
      | Inr (fld, mdl, direct, m2m) \<Rightarrow>
          if \<not> direct \<or> m2m then Inl (FieldError fld, q)
          else (case mdl of
                  Some ancestor \<Rightarrow>
                    add_update_values_loop get_field_by_name items values_seq
                      (add_related_update ancestor fld val q)
                | None \<Rightarrow>
                    add_update_values_loop get_field_by_name items
                      (values_seq @ [(fld, mdl, val)]) q))"

definition add_update_values ::
  "(Options \<Rightarrow> string \<Rightarrow> error + Field \<times> Model option \<times> bool \<times> bool)
     \<Rightarrow> (string \<times> pyval) list
     \<Rightarrow> 'z UpdateQuery_scheme \<Rightarrow> (error \<times> 'z UpdateQuery_scheme) + 'z UpdateQuery_scheme" where
  "add_update_values get_field_by_name vals q =
     (case add_update_values_loop get_field_by_name vals [] q of
        Inl raised \<Rightarrow> Inl raised
      | Inr (values_seq, q') \<Rightarrow> Inr (add_update_fields values_seq q'))"

section \<open>InsertQuery and GeoInsertQuery\<close>

text \<open>
  \<^verbatim>\<open>self.values\<close> of an insert query holds placeholders (strings) or, with
  \<^verbatim>\<open>raw_values\<close>, the values themselves; \<^verbatim>\<open>self.params\<close> is a tuple.
  \<open>get_placeholder f\<close> is \<open>None\<close> when the field \<open>f\<close> has no attribute
  \<^verbatim>\<open>get_placeholder\<close>, and the method otherwise.
\<close>

record InsertQuery = Query +
  columns :: "string list"
  values_ins :: "pyval list"
  params :: "pyval list"
  return_id :: bool

definition InsertQuery_compiler :: string where
  "InsertQuery_compiler = ''SQLInsertCompiler''"

definition InsertQuery_init :: "Query \<Rightarrow> InsertQuery" where
  "InsertQuery_init base =
     Query.extend base
       (InsertQuery.fields [] [] [] False)"

definition placeholder_for ::
  "(Field \<Rightarrow> (pyval \<Rightarrow> 'c \<Rightarrow> string) option) \<Rightarrow> 'c \<Rightarrow> Field \<Rightarrow> pyval \<Rightarrow> string" where
  "placeholder_for get_placeholder connection fld val =
     (case get_placeholder fld of
        Some method \<Rightarrow> method val connection
      | None \<Rightarrow> ''%s'')"

definition insert_values_body ::
  "(Field \<Rightarrow> (pyval \<Rightarrow> 'c \<Rightarrow> string) option) \<Rightarrow> 'c \<Rightarrow> Field \<times> pyval
     \<Rightarrow> string list \<times> pyval list \<times> 'z InsertQuery_scheme
     \<Rightarrow> string list \<times> pyval list \<times> 'z InsertQuery_scheme" where
  "insert_values_body get_placeholder connection item s =
     (case (item, s) of
        ((fld, val), (placeholders, vals, q)) \<Rightarrow>
          (let placeholders = placeholders @ [placeholder_for get_placeholder connection fld val];
               q = q\<lparr>columns := columns q @ [column fld]\<rparr>;
               vals = vals @ [val]
           in (placeholders, vals, q)))"

definition insert_values ::
  "(Field \<Rightarrow> (pyval \<Rightarrow> 'c \<Rightarrow> string) option) \<Rightarrow> (Field \<times> pyval) list \<Rightarrow> 'c \<Rightarrow> bool
     \<Rightarrow> 'z InsertQuery_scheme \<Rightarrow> 'z InsertQuery_scheme" where
  "insert_values get_placeholder items connection raw_values q =
     (case fold (insert_values_body get_placeholder connection) items ([], [], q) of
        (placeholders, vals, q') \<Rightarrow>
          if raw_values then q'\<lparr>values_ins := values_ins q' @ vals\<rparr>
          else (let q'' = q'\<lparr>params := params q' @ vals\<rparr>
                in q''\<lparr>values_ins := values_ins q'' @ map PyStr placeholders\<rparr>))"

definition geo_insert_values_body ::
  "(Field \<Rightarrow> (pyval \<Rightarrow> 'c \<Rightarrow> string) option) \<Rightarrow> 'c \<Rightarrow> Field \<times> pyval
     \<Rightarrow> string list \<times> pyval list \<times> 'z InsertQuery_scheme
     \<Rightarrow> string list \<times> pyval list \<times> 'z InsertQuery_scheme" where
  "geo_insert_values_body get_placeholder connection item s =
     (case (item, s) of
        ((fld, val), (placeholders, vals, q)) \<Rightarrow>
          (let placeholders = placeholders @ [placeholder_for get_placeholder connection fld val];
               q = q\<lparr>columns := columns q @ [column fld]\<rparr>;
               vals = (if \<not> last placeholders = ''NULL'' then vals @ [val] else vals)
           in (placeholders, vals, q)))"

definition geo_insert_values ::
  "(Field \<Rightarrow> (pyval \<Rightarrow> 'c \<Rightarrow> string) option) \<Rightarrow> (Field \<times> pyval) list \<Rightarrow> 'c \<Rightarrow> bool
     \<Rightarrow> 'z InsertQuery_scheme \<Rightarrow> 'z InsertQuery_scheme" where
  "geo_insert_values get_placeholder items connection raw_values q =
     (case fold (geo_insert_values_body get_placeholder connection) items ([], [], q) of
        (placeholders, vals, q') \<Rightarrow>
          if raw_values then q'\<lparr>values_ins := values_ins q' @ vals\<rparr>
          else (let q'' = q'\<lparr>params := params q' @ vals\<rparr>
                in q''\<lparr>values_ins := values_ins q'' @ map PyStr placeholders\<rparr>))"

text \<open>
  The helper \<^verbatim>\<open>insert_query\<close> of the gis module. \<open>Query_init\<close> is the
  constructor of the base class, \<open>connection_of using\<close> the
  \<^verbatim>\<open>connection\<close> of the compiler for \<open>using\<close>, and \<open>result_of\<close> what the
  compiler's \<^verbatim>\<open>execute_sql\<close> returns. The compiler holds the query itself, so it
  executes the query as \<^verbatim>\<open>insert_values\<close> has left it.
\<close>

definition insert_query ::
  "(Model \<Rightarrow> Query) \<Rightarrow> (db_alias \<Rightarrow> 'c) \<Rightarrow> (Field \<Rightarrow> (pyval \<Rightarrow> 'c \<Rightarrow> string) option)
     \<Rightarrow> (InsertQuery event \<Rightarrow> pyval)
     \<Rightarrow> Model \<Rightarrow> (Field \<times> pyval) list \<Rightarrow> bool \<Rightarrow> bool \<Rightarrow> db_alias
     \<Rightarrow> InsertQuery event list \<Rightarrow> pyval \<times> InsertQuery event list" where
  "insert_query Query_init connection_of get_placeholder result_of mdl vals ret_id raw_values using
       trace =
     (let query = InsertQuery_init (Query_init mdl);
          connection = connection_of using;
          query = geo_insert_values get_placeholder vals connection raw_values query;
          st = execute_sql InsertQuery_compiler using (PyBool ret_id) (query, trace)
      in (result_of (last (snd st)), snd st))"

section \<open>DateQuery\<close>

definition DateQuery_compiler :: string where
  "DateQuery_compiler = ''SQLDateCompiler''"

text \<open>\<^verbatim>\<open>c and a or b\<close> for a list \<open>a\<close>: \<open>a\<close> when \<open>c\<close> holds and \<open>a\<close> is not empty.\<close>

definition and_or :: "bool \<Rightarrow> 'a list \<Rightarrow> 'a list \<Rightarrow> 'a list" where
  "and_or c a b = (if c \<and> a \<noteq> [] then a else b)"

text \<open>
  \<^verbatim>\<open>add_date_select\<close>. The base class's \<^verbatim>\<open>get_meta\<close>,
  \<^verbatim>\<open>get_initial_alias\<close>, \<^verbatim>\<open>setup_joins\<close> and \<^verbatim>\<open>set_extra_mask\<close> are
  parameters; the last three may change the query. Of what \<^verbatim>\<open>setup_joins\<close>
  returns only the list of join aliases (\<^verbatim>\<open>result[3]\<close>) is read.
\<close>

definition add_date_select ::
  "('z Query_scheme \<Rightarrow> Options) \<Rightarrow> ('z Query_scheme \<Rightarrow> string \<times> 'z Query_scheme)
     \<Rightarrow> (string list \<Rightarrow> Options \<Rightarrow> string \<Rightarrow> bool \<Rightarrow> 'z Query_scheme
          \<Rightarrow> string list \<times> 'z Query_scheme)
     \<Rightarrow> (string list \<Rightarrow> 'z Query_scheme \<Rightarrow> 'z Query_scheme)
     \<Rightarrow> Field \<Rightarrow> string \<Rightarrow> pyval \<Rightarrow> 'z Query_scheme \<Rightarrow> error + 'z Query_scheme" where
  "add_date_select get_meta get_initial_alias setup_joins set_extra_mask fld lookup_type order q =
     (let opts = get_meta q;
          (initial, q) = get_initial_alias q;
          (joins, q) = setup_joins [name fld] opts initial False q
      in if joins = [] then Inl IndexError
         else
           (let alias = last joins;
                sel = Date (alias, column fld) lookup_type;
                q = q\<lparr>select := [sel]\<rparr>;
                q = q\<lparr>select_fields := [None]\<rparr>;
                q = q\<lparr>select_related := False\<rparr>;
                q = set_extra_mask [] q;
                q = q\<lparr>distinct_q := True\<rparr>;
                q = q\<lparr>order_by := and_or (order = PyStr ''ASC'') [1] [- 1]\<rparr>
            in Inr q))"

section \<open>AggregateQuery\<close>

record AggregateQuery = Query +
  subquery :: string
  sub_params :: "pyval list"

definition AggregateQuery_compiler :: string where
  "AggregateQuery_compiler = ''SQLAggregateCompiler''"

text \<open>
  \<^verbatim>\<open>add_subquery\<close>. \<open>compiler_of\<close> gives the compiler the inner query's class
  names and \<open>as_sql\<close> what that compiler renders; the call is recorded in the trace.
\<close>

definition add_subquery ::
  "('i \<Rightarrow> string) \<Rightarrow> (string \<Rightarrow> db_alias \<Rightarrow> 'i \<Rightarrow> bool \<Rightarrow> string \<times> pyval list)
     \<Rightarrow> 'i \<Rightarrow> db_alias \<Rightarrow> 'z AggregateQuery_scheme \<times> 'i event list
     \<Rightarrow> 'z AggregateQuery_scheme \<times> 'i event list" where
  "add_subquery compiler_of as_sql query using st =
     (let rendered = as_sql (compiler_of query) using query True;
          trace = snd st @ [AsSql (compiler_of query) using query True];
          q = fst st\<lparr>subquery := fst rendered\<rparr>;
          q = q\<lparr>sub_params := snd rendered\<rparr>
      in (q, trace))"

section \<open>The module's classes and exported names\<close>

text \<open>
  The \<^verbatim>\<open>class\<close> statements of \<^verbatim>\<open>django/db/models/sql/subqueries.py\<close> in
  the order of the file, each with its base class and its \<^verbatim>\<open>compiler\<close>
  attribute, and the module's \<^verbatim>\<open>__all__\<close>.
\<close>

record class_statement =
  class_name :: string
  base_class :: string
  compiler_attribute :: string

definition module_classes :: "class_statement list" where
  "module_classes =
     [\<lparr>class_name = ''DeleteQuery'', base_class = ''Query'', compiler_attribute = DeleteQuery_compiler\<rparr>,
      \<lparr>class_name = ''UpdateQuery'', base_class = ''Query'', compiler_attribute = UpdateQuery_compiler\<rparr>,
      \<lparr>class_name = ''InsertQuery'', base_class = ''Query'', compiler_attribute = InsertQuery_compiler\<rparr>,
      \<lparr>class_name = ''DateQuery'', base_class = ''Query'', compiler_attribute = DateQuery_compiler\<rparr>,
      \<lparr>class_name = ''AggregateQuery'', base_class = ''Query'',
        compiler_attribute = AggregateQuery_compiler\<rparr>]"

definition module_all :: "string list" where
  "module_all = [''DeleteQuery'', ''UpdateQuery'', ''InsertQuery'', ''DateQuery'', ''AggregateQuery'']"

text \<open>
  The operations the purpose statement names, and the class whose documentation and
  compiler serve each.
\<close>

datatype operation = Insert_row | Update_rows | Delete_rows | Extract_dates | Compute_aggregates

fun query_class_for :: "operation \<Rightarrow> string" where
  "query_class_for Delete_rows = ''DeleteQuery''"
| "query_class_for Update_rows = ''UpdateQuery''"
| "query_class_for Insert_row = ''InsertQuery''"
| "query_class_for Extract_dates = ''DateQuery''"
| "query_class_for Compute_aggregates = ''AggregateQuery''"

section \<open>Chunks\<close>

text \<open>
  The consecutive chunks of at most \<open>n\<close> elements of a list: what the batch methods are
  meant to cut \<^verbatim>\<open>pk_list\<close> into.
\<close>

function chunks_of :: "nat \<Rightarrow> 'a list \<Rightarrow> 'a list list" where
  "chunks_of n xs = (if n = 0 \<or> xs = [] then [] else take n xs # chunks_of n (drop n xs))"
  by pat_completeness auto
termination
  by (relation "measure (\<lambda>(n, xs). length xs)") auto

declare chunks_of.simps [simp del]

section \<open>What the batch methods issue\<close>

text \<open>
  The where node that restricts the primary key to a chunk, and the compiler calls that
  carry it: the statements about \<^verbatim>\<open>delete_batch\<close> and
  \<^verbatim>\<open>clear_related\<close> are written with them.
\<close>

definition pk_in :: "Model \<Rightarrow> pyval list \<Rightarrow> where_node" where
  "pk_in mdl chunk =
     WhereNode [(Lookup \<lparr>constraint_alias = None, constraint_col = column (pk (meta mdl)),
                         constraint_field = pk (meta mdl)\<rparr> ''in'' (PyList chunk), AND)]"

definition delete_event :: "db_alias \<Rightarrow> 'z Query_scheme \<Rightarrow> pyval list \<Rightarrow> ('z Query_scheme) event" where
  "delete_event using q chunk =
     ExecuteSql ''SQLDeleteCompiler'' using
       (q\<lparr>tables := [db_table (meta (model q))], where_q := pk_in (model q) chunk\<rparr>) PyNone"

definition clear_event ::
  "db_alias \<Rightarrow> Field \<Rightarrow> 'z UpdateQuery_scheme \<Rightarrow> pyval list \<Rightarrow> ('z UpdateQuery_scheme) event" where
  "clear_event using related_field q chunk =
     ExecuteSql ''SQLUpdateCompiler'' using
       (q\<lparr>where_q := pk_in (model q) chunk, values_upd := [(related_field, None, PyNone)]\<rparr>) PyNone"


section \<open>Names at which add_update_values stops\<close>

text \<open>
  The loop of \<^verbatim>\<open>add_update_values\<close> stops at an item whose name the lookup does
  not resolve, or resolves to a field that is not direct or is many-to-many.
  \<open>raised_at\<close> is the exception that leaves the method there: the lookup's own in the
  first case, the \<^verbatim>\<open>FieldError\<close> for the field in the second. An item is
  \<open>refused\<close> in the second case only.
\<close>

definition stops ::
  "(Options \<Rightarrow> string \<Rightarrow> error + Field \<times> Model option \<times> bool \<times> bool) \<Rightarrow> Options
     \<Rightarrow> string \<times> pyval \<Rightarrow> bool" where
  "stops get_field_by_name opts item =
     (case get_field_by_name opts (fst item) of
        Inl e \<Rightarrow> True
      | Inr (fld, mdl, direct, m2m) \<Rightarrow> \<not> direct \<or> m2m)"

definition raised_at ::
  "(Options \<Rightarrow> string \<Rightarrow> error + Field \<times> Model option \<times> bool \<times> bool) \<Rightarrow> Options
     \<Rightarrow> string \<times> pyval \<Rightarrow> error" where
  "raised_at get_field_by_name opts item =
     (case get_field_by_name opts (fst item) of
        Inl e \<Rightarrow> e
      | Inr (fld, mdl, direct, m2m) \<Rightarrow> FieldError fld)"

definition refused ::
  "(Options \<Rightarrow> string \<Rightarrow> error + Field \<times> Model option \<times> bool \<times> bool) \<Rightarrow> Options
     \<Rightarrow> string \<times> pyval \<Rightarrow> bool" where
  "refused get_field_by_name opts item =
     (case get_field_by_name opts (fst item) of
        Inl e \<Rightarrow> False
      | Inr (fld, mdl, direct, m2m) \<Rightarrow> \<not> direct \<or> m2m)"

section \<open>Runs that only execute through one compiler\<close>

text \<open>
  \<open>only_executes\<close> says that every event of a list is the call
  \<^verbatim>\<open>execute_sql(arg)\<close> on the given compiler and database alias.
  \<open>delete_run\<close> relates the state before a delete method to the state after it: the
  trace has grown by such calls on the delete compiler only, and the query differs in
  \<^verbatim>\<open>tables\<close> and \<^verbatim>\<open>where\<close> at most.
\<close>

definition only_executes :: "string \<Rightarrow> db_alias \<Rightarrow> pyval \<Rightarrow> 'q event list \<Rightarrow> bool" where
  "only_executes compiler using arg evs =
     list_all (\<lambda>ev. case ev of
                       ExecuteSql c u q a \<Rightarrow> c = compiler \<and> u = using \<and> a = arg
                     | AsSql c u q b \<Rightarrow> False) evs"

definition delete_run ::
  "db_alias \<Rightarrow> ('z Query_scheme) state \<Rightarrow> ('z Query_scheme) state \<Rightarrow> bool" where
  "delete_run using st st' \<longleftrightarrow>
     (\<exists>evs. snd st' = snd st @ evs \<and> only_executes ''SQLDeleteCompiler'' using PyNone evs)
     \<and> (fst st')\<lparr>tables := tables (fst st), where_q := where_q (fst st)\<rparr> = fst st"

section \<open>The class of the gis module\<close>

text \<open>
  The one \<^verbatim>\<open>class\<close> statement of
  \<^verbatim>\<open>django/contrib/gis/db/models/sql/subqueries.py\<close>. It sets no
  \<^verbatim>\<open>compiler\<close> attribute and so has the one of its base class.
\<close>

definition gis_module_classes :: "class_statement list" where
  "gis_module_classes =
     [\<lparr>class_name = ''GeoInsertQuery'', base_class = ''InsertQuery'',
       compiler_attribute = InsertQuery_compiler\<rparr>]"

section \<open>Concrete instances\<close>

text \<open>A field, a model and queries on which the theorems below are instantiated.\<close>

definition sample_field :: Field where
  "sample_field = \<lparr>name = ''id'', column = ''id'', m2m_db_table = '''', m2m_column_name = '''',
     m2m_reverse_name = '''', content_type_field_name = '''', is_GenericRelation = False\<rparr>"

definition sample_model :: Model where
  "sample_model = \<lparr>model_name = ''Entry'',
     meta = \<lparr>pk = sample_field, db_table = ''blog_entry'', many_to_many = [],
             related_objects = []\<rparr>\<rparr>"

definition sample_query :: Query where
  "sample_query = \<lparr>model = sample_model, tables = [], where_q = WhereNode [], select = [],
     select_fields = [], select_related = True, distinct_q = False, order_by = []\<rparr>"

definition sample_update_query :: UpdateQuery where
  "sample_update_query = Query.extend sample_query (UpdateQuery.fields [] None Map.empty)"

definition sample_insert_query :: InsertQuery where
  "sample_insert_query = InsertQuery_init sample_query"

definition geometry_field :: Field where
  "geometry_field = \<lparr>name = ''point'', column = ''point'', m2m_db_table = '''',
     m2m_column_name = '''', m2m_reverse_name = '''', content_type_field_name = '''',
     is_GenericRelation = False\<rparr>"

definition geo_get_placeholder :: "Field \<Rightarrow> (pyval \<Rightarrow> unit \<Rightarrow> string) option" where
  "geo_get_placeholder fld =
     (if name fld = ''point''
      then Some (\<lambda>val connection. if val = PyNone then ''NULL'' else ''GeomFromText(%s)'')
      else None)"

definition headline_field :: Field where
  "headline_field = \<lparr>name = ''headline'', column = ''headline'', m2m_db_table = '''',
     m2m_column_name = '''', m2m_reverse_name = '''', content_type_field_name = '''',
     is_GenericRelation = False\<rparr>"

definition tags_field :: Field where
  "tags_field = \<lparr>name = ''tags'', column = ''tags'', m2m_db_table = ''blog_entry_tags'',
     m2m_column_name = ''entry_id'', m2m_reverse_name = ''tag_id'', content_type_field_name = '''',
     is_GenericRelation = False\<rparr>"

definition parent_model :: Model where
  "parent_model = \<lparr>model_name = ''Post'',
     meta = \<lparr>pk = sample_field, db_table = ''blog_post'', many_to_many = [],
             related_objects = []\<rparr>\<rparr>"

definition sample_get_field_by_name ::
  "Options \<Rightarrow> string \<Rightarrow> error + Field \<times> Model option \<times> bool \<times> bool" where
  "sample_get_field_by_name opts nm =
     (if nm = ''headline'' then Inr (headline_field, Some parent_model, True, False)
      else if nm = ''tags'' then Inr (tags_field, None, True, True)
      else if nm = ''id'' then Inr (sample_field, None, True, False)
      else Inl (FieldDoesNotExist nm))"

definition sample_get_initial_alias :: "Query \<Rightarrow> string \<times> Query" where
  "sample_get_initial_alias q = (db_table (meta (model q)), q\<lparr>tables := tables q @ [db_table (meta (model q))]\<rparr>)"

definition sample_setup_joins ::
  "string list \<Rightarrow> Options \<Rightarrow> string \<Rightarrow> bool \<Rightarrow> Query \<Rightarrow> string list \<times> Query" where
  "sample_setup_joins names opts initial allow_many q = ([initial], q)"

definition sample_set_extra_mask :: "string list \<Rightarrow> Query \<Rightarrow> Query" where
  "sample_set_extra_mask names q = q"

definition sample_aggregate_query :: AggregateQuery where
  "sample_aggregate_query = Query.extend sample_query (AggregateQuery.fields '''' [])"

definition sample_as_sql :: "string \<Rightarrow> db_alias \<Rightarrow> Query \<Rightarrow> bool \<Rightarrow> string \<times> pyval list" where
  "sample_as_sql compiler using q with_col_aliases =
     (if with_col_aliases then (''SELECT id AS Col1 FROM blog_entry WHERE id > %s'', [PyInt 3])
      else (''SELECT id FROM blog_entry WHERE id > %s'', [PyInt 3]))"

definition sample_m2m_model :: Model where
  "sample_m2m_model = \<lparr>model_name = ''Entry'',
     meta = \<lparr>pk = sample_field, db_table = ''blog_entry'', many_to_many = [tags_field],
             related_objects = [headline_field]\<rparr>\<rparr>"

definition sample_m2m_query :: Query where
  "sample_m2m_query = sample_query\<lparr>model := sample_m2m_model\<rparr>"

section \<open>Chunking of the primary keys\<close>

lemma chunks_of_Nil [simp]: "chunks_of n [] = []"
  by (simp add: chunks_of.simps)

lemma py_slice_chunk:
  assumes "0 < c" "k \<le> length xs"
  shows "py_slice xs (int k) (int k + c) = take (nat c) (drop k xs)"
proof -
  let ?n = "int (length xs)"
  have a: "slice_bound ?n (int k) = int k"
    using assms by (simp add: slice_bound_def)
  have b: "slice_bound ?n (int k + c) = min (int k + c) ?n"
    using assms by (simp add: slice_bound_def)
  have "take (nat (min (int k + c) ?n - int k)) (drop k xs) = take (nat c) (drop k xs)"
  proof (cases "int k + c \<le> ?n")
    case True
    then show ?thesis by (simp add: min_def)
  next
    case False
    then have "length (drop k xs) \<le> nat c" using assms by simp
    moreover have "nat (min (int k + c) ?n - int k) = length (drop k xs)"
      using False assms by (simp add: min_def nat_diff_distrib')
    ultimately show ?thesis by simp
  qed
  then show ?thesis by (simp add: py_slice_def a b)
qed

lemma range_up_chunks:
  assumes "0 < c"
  shows "map (\<lambda>off. py_slice xs off (off + c)) (range_up (int k) (int (length xs)) c)
         = chunks_of (nat c) (drop k xs)"
proof (induction "length xs - k" arbitrary: k rule: less_induct)
  case less
  show ?case
  proof (cases "k < length xs")
    case False
    then show ?thesis
      by (simp add: range_up.simps [of "int k"] chunks_of.simps [of _ "drop k xs"])
  next
    case True
    have step: "int k + c = int (k + nat c)" using assms by simp
    have "length xs - (k + nat c) < length xs - k" using True assms by simp
    from less [OF this]
    have "map (\<lambda>off. py_slice xs off (off + c)) (range_up (int (k + nat c)) (int (length xs)) c)
              = chunks_of (nat c) (drop (k + nat c) xs)" .
    then have ih: "map (\<lambda>off. py_slice xs off (off + c)) (range_up (int k + c) (int (length xs)) c)
              = chunks_of (nat c) (drop (nat c) (drop k xs))"
      unfolding step [symmetric] by (simp add: add.commute)
    have "drop k xs \<noteq> []" using True by simp
    then show ?thesis
      using assms True ih py_slice_chunk [of c k xs]
      by (simp add: range_up.simps [of "int k"] chunks_of.simps [of _ "drop k xs"])
  qed
qed

lemma concat_chunks_of: "0 < n \<Longrightarrow> concat (chunks_of n xs) = xs"
proof (induction n xs rule: chunks_of.induct)
  case (1 n xs)
  then show ?case by (simp add: chunks_of.simps [of n xs])
qed

lemma chunks_of_bounds:
  "ch \<in> set (chunks_of n xs) \<Longrightarrow> ch \<noteq> [] \<and> length ch \<le> n"
proof (induction n xs rule: chunks_of.induct)
  case (1 n xs)
  then show ?case
    by (auto simp: chunks_of.simps [of n xs] split: if_splits)
qed

lemma div_add_one: "0 < n \<Longrightarrow> (a + n) div n = Suc (a div (n::nat))"
  using div_add_self2 [of n a] by simp

lemma length_chunks_of:
  "0 < n \<Longrightarrow> length (chunks_of n xs) = (length xs + n - 1) div n"
proof (induction n xs rule: chunks_of.induct)
  case (1 n xs)
  show ?case
  proof (cases "xs = []")
    case True
    then show ?thesis using 1(2) by simp
  next
    case False
    define a where "a = length xs - 1"
    have len: "length xs = Suc a" using False by (simp add: a_def)
    from False 1 have ih: "length (chunks_of n (drop n xs)) = (length xs - n + n - 1) div n"
      by simp
    have unfold: "length (chunks_of n xs) = Suc (length (chunks_of n (drop n xs)))"
      using False 1(2) by (simp add: chunks_of.simps [of n xs])
    have "length xs + n - 1 = a + n" by (simp add: len)
    then have total: "(length xs + n - 1) div n = Suc (a div n)"
      using div_add_one [OF 1(2), of a] by simp
    show ?thesis
    proof (cases "n \<le> length xs")
      case True
      then have "length xs - n + n - 1 = a" by (simp add: len)
      then show ?thesis using unfold ih total by simp
    next
      case False
      then have "a div n = 0" by (simp add: len)
      moreover have "(length xs - n + n - 1) div n = 0" using False 1(2) by simp
      ultimately show ?thesis using unfold ih total by simp
    qed
  qed
qed

lemma delete_batch_body_step:
  "delete_batch_body c pks u off (q, tr) =
     (q\<lparr>tables := [db_table (meta (model q))],
        where_q := pk_in (model q) (py_slice pks off (off + c))\<rparr>,
      tr @ [delete_event u q (py_slice pks off (off + c))])"
  by (simp add: delete_batch_body_def do_query_def execute_sql_def where_class_def add_def
      pk_in_def delete_event_def DeleteQuery_compiler_def Let_def)

lemma delete_event_frame:
  "delete_event u (q\<lparr>tables := a, where_q := b\<rparr>) ch = delete_event u q ch"
  by (simp add: delete_event_def)

lemma fold_delete_batch_body:
  "fold (delete_batch_body c pks u) offs (q, tr) =
     (if offs = [] then q
      else q\<lparr>tables := [db_table (meta (model q))],
             where_q := pk_in (model q) (py_slice pks (last offs) (last offs + c))\<rparr>,
      tr @ map (\<lambda>off. delete_event u q (py_slice pks off (off + c))) offs)"
proof (induction offs arbitrary: q tr)
  case Nil
  show ?case by simp
next
  case (Cons off offs)
  show ?case
    by (simp add: delete_batch_body_step Cons.IH delete_event_frame)
qed

lemma clear_related_body_step:
  "clear_related_body c rf pks u off (q, tr) =
     (q\<lparr>where_q := pk_in (model q) (py_slice pks off (off + c)),
        values_upd := [(rf, None, PyNone)]\<rparr>,
      tr @ [clear_event u rf q (py_slice pks off (off + c))])"
  by (simp add: clear_related_body_def execute_sql_def where_class_def add_def
      pk_in_def clear_event_def UpdateQuery_compiler_def Let_def)

lemma clear_event_frame:
  "clear_event u rf (q\<lparr>where_q := b, values_upd := a\<rparr>) ch = clear_event u rf q ch"
  by (simp add: clear_event_def)

lemma fold_clear_related_body:
  "fold (clear_related_body c rf pks u) offs (q, tr) =
     (if offs = [] then q
      else q\<lparr>where_q := pk_in (model q) (py_slice pks (last offs) (last offs + c)),
             values_upd := [(rf, None, PyNone)]\<rparr>,
      tr @ map (\<lambda>off. clear_event u rf q (py_slice pks off (off + c))) offs)"
proof (induction offs arbitrary: q tr)
  case Nil
  show ?case by simp
next
  case (Cons off offs)
  show ?case
    by (simp add: clear_related_body_step Cons.IH clear_event_frame)
qed

lemma range_up_0_chunks:
  assumes "0 < c"
  shows "map (\<lambda>off. py_slice xs off (off + c)) (range_up 0 (int (length xs)) c)
         = chunks_of (nat c) xs"
  using range_up_chunks [OF assms, of xs 0] by simp

lemma map_event_chunks:
  assumes "0 < c"
  shows "map (\<lambda>off. f (py_slice xs off (off + c))) (range_up 0 (int (length xs)) c)
         = map f (chunks_of (nat c) xs)"
proof -
  have "map (\<lambda>off. f (py_slice xs off (off + c))) (range_up 0 (int (length xs)) c)
        = map f (map (\<lambda>off. py_slice xs off (off + c)) (range_up 0 (int (length xs)) c))"
    by (simp add: comp_def)
  then show ?thesis by (simp only: range_up_0_chunks [OF assms])
qed

lemma chunks_of_eq_Nil: "0 < n \<Longrightarrow> chunks_of n xs = [] \<longleftrightarrow> xs = []"
  by (simp add: chunks_of.simps [of n xs])

lemma range_up_0_Nil:
  assumes "0 < c"
  shows "range_up 0 (int (length xs)) c = [] \<longleftrightarrow> xs = []"
proof -
  have "range_up 0 (int (length xs)) c = []
        \<longleftrightarrow> map (\<lambda>off. py_slice xs off (off + c)) (range_up 0 (int (length xs)) c) = []"
    by simp
  also have "\<dots> \<longleftrightarrow> chunks_of (nat c) xs = []"
    by (simp only: range_up_0_chunks [OF assms])
  also have "\<dots> \<longleftrightarrow> xs = []"
    using assms by (simp add: chunks_of_eq_Nil)
  finally show ?thesis .
qed

lemma last_slice_chunks:
  assumes "0 < c" "xs \<noteq> []"
  shows "py_slice xs (last (range_up 0 (int (length xs)) c))
           (last (range_up 0 (int (length xs)) c) + c) = last (chunks_of (nat c) xs)"
proof -
  let ?offs = "range_up 0 (int (length xs)) c"
  have "?offs \<noteq> []" using assms by (simp add: range_up_0_Nil)
  then have "last (map (\<lambda>off. py_slice xs off (off + c)) ?offs)
             = py_slice xs (last ?offs) (last ?offs + c)"
    by (simp add: last_map)
  then show ?thesis by (simp only: range_up_0_chunks [OF assms(1)])
qed

lemma delete_batch_result:
  assumes "0 < c"
  shows "delete_batch c pks u (q, tr) =
     Inr (if pks = [] then q
          else q\<lparr>tables := [db_table (meta (model q))],
                 where_q := pk_in (model q) (last (chunks_of (nat c) pks))\<rparr>,
          tr @ map (delete_event u q) (chunks_of (nat c) pks))"
  using assms
  by (simp add: delete_batch_def py_range_def fold_delete_batch_body map_event_chunks
      range_up_0_Nil last_slice_chunks)

lemma clear_related_result:
  assumes "0 < c"
  shows "clear_related c rf pks u (q, tr) =
     Inr (if pks = [] then q
          else q\<lparr>where_q := pk_in (model q) (last (chunks_of (nat c) pks)),
                 values_upd := [(rf, None, PyNone)]\<rparr>,
          tr @ map (clear_event u rf q) (chunks_of (nat c) pks))"
  using assms
  by (simp add: clear_related_def py_range_def fold_clear_related_body map_event_chunks
      range_up_0_Nil last_slice_chunks)

lemma length_chunks_of_int:
  assumes "0 < c"
  shows "int (length (chunks_of (nat c) xs)) = (int (length xs) + c - 1) div c"
proof -
  have n: "0 < nat c" using assms by simp
  have "int (length xs + nat c - 1) = int (length xs) + c - 1" using assms by simp
  moreover have "int ((length xs + nat c - 1) div nat c) = int (length xs + nat c - 1) div int (nat c)"
    by (simp only: zdiv_int)
  ultimately show ?thesis using assms by (simp add: length_chunks_of [OF n])
qed

text \<open>
  Claim C3. With a positive \<^verbatim>\<open>GET_ITERATOR_CHUNK_SIZE\<close>,
  \<^verbatim>\<open>delete_batch\<close> returns normally and adds to the trace one delete query
  per consecutive chunk of \<^verbatim>\<open>pk_list\<close>, in order, each restricting the primary
  key to its chunk. The chunks concatenate to \<^verbatim>\<open>pk_list\<close>, none is empty or
  longer than the chunk size, and their number is the ceiling of the length of
  \<^verbatim>\<open>pk_list\<close> over the chunk size (none for an empty list).
  \<^verbatim>\<open>clear_related\<close> issues its update queries for the very same chunks.
\<close>

theorem delete_batch_chunks:
  assumes "0 < GET_ITERATOR_CHUNK_SIZE"
  shows "delete_batch GET_ITERATOR_CHUNK_SIZE pk_list using (q, trace) =
           Inr (if pk_list = [] then q
                else q\<lparr>tables := [db_table (meta (model q))],
                       where_q := pk_in (model q)
                         (last (chunks_of (nat GET_ITERATOR_CHUNK_SIZE) pk_list))\<rparr>,
                trace @ map (delete_event using q)
                          (chunks_of (nat GET_ITERATOR_CHUNK_SIZE) pk_list))
       \<and> concat (chunks_of (nat GET_ITERATOR_CHUNK_SIZE) pk_list) = pk_list
       \<and> (\<forall>chunk \<in> set (chunks_of (nat GET_ITERATOR_CHUNK_SIZE) pk_list).
             chunk \<noteq> [] \<and> int (length chunk) \<le> GET_ITERATOR_CHUNK_SIZE)
       \<and> int (length (chunks_of (nat GET_ITERATOR_CHUNK_SIZE) pk_list))
           = (int (length pk_list) + GET_ITERATOR_CHUNK_SIZE - 1) div GET_ITERATOR_CHUNK_SIZE
       \<and> chunks_of (nat GET_ITERATOR_CHUNK_SIZE) ([] :: pyval list) = []
       \<and> clear_related GET_ITERATOR_CHUNK_SIZE related_field pk_list using' (uq, utrace) =
           Inr (if pk_list = [] then uq
                else uq\<lparr>where_q := pk_in (model uq)
                          (last (chunks_of (nat GET_ITERATOR_CHUNK_SIZE) pk_list)),
                        values_upd := [(related_field, None, PyNone)]\<rparr>,
                utrace @ map (clear_event using' related_field uq)
                           (chunks_of (nat GET_ITERATOR_CHUNK_SIZE) pk_list))"
proof -
  have n: "0 < nat GET_ITERATOR_CHUNK_SIZE" using assms by simp
  have bound: "\<forall>chunk \<in> set (chunks_of (nat GET_ITERATOR_CHUNK_SIZE) pk_list).
                 chunk \<noteq> [] \<and> int (length chunk) \<le> GET_ITERATOR_CHUNK_SIZE"
  proof
    fix chunk assume "chunk \<in> set (chunks_of (nat GET_ITERATOR_CHUNK_SIZE) pk_list)"
    from chunks_of_bounds [OF this] show "chunk \<noteq> [] \<and> int (length chunk) \<le> GET_ITERATOR_CHUNK_SIZE"
      using assms by auto
  qed
  show ?thesis
    by (intro conjI delete_batch_result [OF assms] clear_related_result [OF assms]
        concat_chunks_of [OF n] length_chunks_of_int [OF assms] bound chunks_of_Nil)
qed

theorem delete_batch_chunks_witness:
  "0 < (2::int)
   \<and> snd (projr (delete_batch 2 [PyInt 1, PyInt 2, PyInt 3] None (sample_query, []))) =
       [delete_event None sample_query [PyInt 1, PyInt 2],
        delete_event None sample_query [PyInt 3]]
   \<and> snd (projr (clear_related 2 sample_field [PyInt 1, PyInt 2, PyInt 3] None
                   (sample_update_query, []))) =
       [clear_event None sample_field sample_update_query [PyInt 1, PyInt 2],
        clear_event None sample_field sample_update_query [PyInt 3]]"
  using delete_batch_chunks
    [of 2 "[PyInt 1, PyInt 2, PyInt 3]" None sample_query "[]" sample_field None
       sample_update_query "[]"]
  by (simp add: chunks_of.simps)

section \<open>Insert queries: columns, placeholders and parameters\<close>

lemma insert_values_body_step:
  "insert_values_body gp conn (fld, val) (ps, vs, q) =
     (ps @ [placeholder_for gp conn fld val], vs @ [val], q\<lparr>columns := columns q @ [column fld]\<rparr>)"
  by (simp add: insert_values_body_def)

lemma geo_insert_values_body_step:
  "geo_insert_values_body gp conn (fld, val) (ps, vs, q) =
     (ps @ [placeholder_for gp conn fld val],
      (if placeholder_for gp conn fld val \<noteq> ''NULL'' then vs @ [val] else vs),
      q\<lparr>columns := columns q @ [column fld]\<rparr>)"
  by (simp add: geo_insert_values_body_def)

lemma fold_insert_values_body:
  "fold (insert_values_body gp conn) items (ps, vs, q) =
     (ps @ map (\<lambda>(fld, val). placeholder_for gp conn fld val) items,
      vs @ map snd items,
      q\<lparr>columns := columns q @ map (\<lambda>(fld, val). column fld) items\<rparr>)"
proof (induction items arbitrary: ps vs q)
  case Nil
  show ?case by simp
next
  case (Cons item items)
  obtain fld val where item: "item = (fld, val)" by (cases item)
  show ?case
    by (simp add: item insert_values_body_step Cons.IH)
qed

lemma fold_geo_insert_values_body:
  "fold (geo_insert_values_body gp conn) items (ps, vs, q) =
     (ps @ map (\<lambda>(fld, val). placeholder_for gp conn fld val) items,
      vs @ map snd (filter (\<lambda>(fld, val). placeholder_for gp conn fld val \<noteq> ''NULL'') items),
      q\<lparr>columns := columns q @ map (\<lambda>(fld, val). column fld) items\<rparr>)"
proof (induction items arbitrary: ps vs q)
  case Nil
  show ?case by simp
next
  case (Cons item items)
  obtain fld val where item: "item = (fld, val)" by (cases item)
  show ?case
    by (simp add: item geo_insert_values_body_step Cons.IH)
qed

lemma insert_values_params:
  "insert_values gp items conn False q =
     q\<lparr>columns := columns q @ map (\<lambda>(fld, val). column fld) items,
       values_ins := values_ins q @ map (\<lambda>(fld, val). PyStr (placeholder_for gp conn fld val)) items,
       params := params q @ map snd items\<rparr>"
  by (simp add: insert_values_def fold_insert_values_body Let_def comp_def case_prod_beta)

lemma geo_insert_values_params:
  "geo_insert_values gp items conn False q =
     q\<lparr>columns := columns q @ map (\<lambda>(fld, val). column fld) items,
       values_ins := values_ins q @ map (\<lambda>(fld, val). PyStr (placeholder_for gp conn fld val)) items,
       params := params q @
         map snd (filter (\<lambda>(fld, val). placeholder_for gp conn fld val \<noteq> ''NULL'') items)\<rparr>"
  by (simp add: geo_insert_values_def fold_geo_insert_values_body Let_def comp_def case_prod_beta)

text \<open>
  Claim C2. With \<^verbatim>\<open>raw_values=False\<close>, \<^verbatim>\<open>InsertQuery.insert_values\<close>
  appends one column name, one placeholder and one parameter per pair, so the three lists
  grow by the number of pairs. \<^verbatim>\<open>GeoInsertQuery.insert_values\<close> appends the same
  columns and placeholders but a parameter only for the pairs whose placeholder is not
  \<^verbatim>\<open>'NULL'\<close>; on a fresh query with one geometry field set to \<^verbatim>\<open>None\<close> its
  parameters are fewer than its placeholders.
\<close>

theorem insert_values_growth:
  "columns (insert_values gp items conn False q)
     = columns q @ map (\<lambda>(fld, val). column fld) items
   \<and> values_ins (insert_values gp items conn False q)
     = values_ins q @ map (\<lambda>(fld, val). PyStr (placeholder_for gp conn fld val)) items
   \<and> params (insert_values gp items conn False q) = params q @ map snd items
   \<and> length (columns (insert_values gp items conn False q)) = length (columns q) + length items
   \<and> length (values_ins (insert_values gp items conn False q))
     = length (values_ins q) + length items
   \<and> length (params (insert_values gp items conn False q)) = length (params q) + length items
   \<and> columns (geo_insert_values gp items conn False q)
     = columns q @ map (\<lambda>(fld, val). column fld) items
   \<and> values_ins (geo_insert_values gp items conn False q)
     = values_ins q @ map (\<lambda>(fld, val). PyStr (placeholder_for gp conn fld val)) items
   \<and> params (geo_insert_values gp items conn False q)
     = params q @
       map snd (filter (\<lambda>(fld, val). placeholder_for gp conn fld val \<noteq> ''NULL'') items)
   \<and> length (columns (geo_insert_values gp items conn False q))
     = length (columns q) + length items
   \<and> length (values_ins (geo_insert_values gp items conn False q))
     = length (values_ins q) + length items
   \<and> length (params (geo_insert_values gp items conn False q))
     = length (params q)
       + length (filter (\<lambda>(fld, val). placeholder_for gp conn fld val \<noteq> ''NULL'') items)
   \<and> length (params (geo_insert_values geo_get_placeholder [(geometry_field, PyNone)] ()
                 False sample_insert_query))
     < length (values_ins (geo_insert_values geo_get_placeholder [(geometry_field, PyNone)] ()
                 False sample_insert_query))"
proof -
  have "length (params (geo_insert_values geo_get_placeholder [(geometry_field, PyNone)] ()
                 False sample_insert_query))
     < length (values_ins (geo_insert_values geo_get_placeholder [(geometry_field, PyNone)] ()
                 False sample_insert_query))"
    by (simp add: geo_insert_values_params placeholder_for_def geo_get_placeholder_def
        geometry_field_def sample_insert_query_def InsertQuery_init_def InsertQuery.fields_def
        Query.extend_def sample_query_def)
  then show ?thesis
    by (simp add: insert_values_params geo_insert_values_params)
qed

theorem insert_values_growth_witness:
  "params (insert_values geo_get_placeholder
             [(sample_field, PyInt 7), (geometry_field, PyNone)] () False sample_insert_query)
     = [PyInt 7, PyNone]
   \<and> values_ins (geo_insert_values geo_get_placeholder
             [(sample_field, PyInt 7), (geometry_field, PyNone)] () False sample_insert_query)
     = [PyStr ''%s'', PyStr ''NULL'']
   \<and> columns (geo_insert_values geo_get_placeholder
             [(sample_field, PyInt 7), (geometry_field, PyNone)] () False sample_insert_query)
     = [''id'', ''point'']
   \<and> params (geo_insert_values geo_get_placeholder
             [(sample_field, PyInt 7), (geometry_field, PyNone)] () False sample_insert_query)
     = [PyInt 7]"
  using insert_values_growth
    [of geo_get_placeholder "[(sample_field, PyInt 7), (geometry_field, PyNone)]" "()"
       sample_insert_query]
  by (simp add: placeholder_for_def geo_get_placeholder_def
        geometry_field_def sample_field_def sample_insert_query_def InsertQuery_init_def
        InsertQuery.fields_def Query.extend_def sample_query_def)

section \<open>Updates: what a raise leaves behind\<close>

lemma add_related_update_model [simp]:
  "model (add_related_update mdl fld val q) = model q"
  by (simp add: add_related_update_def split: option.split)

lemma add_related_update_values [simp]:
  "values_upd (add_related_update mdl fld val q) = values_upd q"
  by (simp add: add_related_update_def split: option.split)

lemma add_related_update_frame:
  "(add_related_update mdl fld val q)\<lparr>related_updates := r\<rparr> = q\<lparr>related_updates := r\<rparr>"
  by (simp add: add_related_update_def split: option.split)

lemma related_updates_frame_trans:
  assumes "q1\<lparr>related_updates := r\<rparr> = q\<lparr>related_updates := r\<rparr>"
    and "q2\<lparr>related_updates := related_updates q1\<rparr> = q1"
  shows "q2\<lparr>related_updates := r\<rparr> = q\<lparr>related_updates := r\<rparr>"
proof -
  have "q2\<lparr>related_updates := related_updates q1\<rparr>\<lparr>related_updates := r\<rparr>
        = q1\<lparr>related_updates := r\<rparr>"
    by (simp only: assms(2))
  then have "q2\<lparr>related_updates := r\<rparr> = q1\<lparr>related_updates := r\<rparr>" by simp
  with assms(1) show ?thesis by simp
qed

lemma loop_raised:
  assumes "add_update_values_loop gf items vs q = Inl (e, q')"
  shows "(\<exists>item. find (stops gf (meta (model q))) items = Some item
            \<and> e = raised_at gf (meta (model q)) item)
         \<and> q'\<lparr>related_updates := related_updates q\<rparr> = q"
  using assms
proof (induction items arbitrary: vs q)
  case Nil
  then show ?case by simp
next
  case (Cons item items)
  obtain nm val where item: "item = (nm, val)" by (cases item)
  show ?case
  proof (cases "gf (meta (model q)) nm")
    case (Inl err)
    from Cons.prems have e: "e = err" and q': "q' = q"
      by (simp_all add: item Inl)
    have "find (stops gf (meta (model q))) (item # items) = Some item"
      by (simp add: item stops_def Inl)
    moreover have "e = raised_at gf (meta (model q)) item"
      by (simp add: e item raised_at_def Inl)
    ultimately have "\<exists>it. find (stops gf (meta (model q))) (item # items) = Some it
            \<and> e = raised_at gf (meta (model q)) it"
      by blast
    moreover have "q'\<lparr>related_updates := related_updates q\<rparr> = q" by (simp add: q')
    ultimately show ?thesis by (rule conjI)
  next
    case (Inr resolved)
    obtain fld mdl direct m2m where resolved: "resolved = (fld, mdl, direct, m2m)"
      by (cases resolved)
    note gf = Inr [unfolded resolved]
    show ?thesis
    proof (cases "\<not> direct \<or> m2m")
      case True
      from Cons.prems True have e: "e = FieldError fld" and q': "q' = q"
        by (simp_all add: item gf)
      have "find (stops gf (meta (model q))) (item # items) = Some item"
        using True by (simp add: item stops_def gf)
      moreover have "e = raised_at gf (meta (model q)) item"
        by (simp add: e item raised_at_def gf)
      ultimately have "\<exists>it. find (stops gf (meta (model q))) (item # items) = Some it
              \<and> e = raised_at gf (meta (model q)) it"
        by blast
      moreover have "q'\<lparr>related_updates := related_updates q\<rparr> = q" by (simp add: q')
      ultimately show ?thesis by (rule conjI)
    next
      case False
      then have ok: "\<not> stops gf (meta (model q)) item" by (simp add: item gf stops_def)
      show ?thesis
      proof (cases mdl)
        case None
        with False Cons.prems
        have "add_update_values_loop gf items (vs @ [(fld, mdl, val)]) q = Inl (e, q')"
          by (simp add: item gf)
        from Cons.IH [OF this] show ?thesis using ok by simp
      next
        case (Some ancestor)
        let ?q1 = "add_related_update ancestor fld val q"
        from Some False Cons.prems
        have "add_update_values_loop gf items vs ?q1 = Inl (e, q')"
          by (simp add: item gf)
        from Cons.IH [OF this]
        have first: "\<exists>it. find (stops gf (meta (model q))) items = Some it
                       \<and> e = raised_at gf (meta (model q)) it"
          and frame: "q'\<lparr>related_updates := related_updates ?q1\<rparr> = ?q1"
          by simp_all
        have "q'\<lparr>related_updates := related_updates q\<rparr>
              = q\<lparr>related_updates := related_updates q\<rparr>"
          by (rule related_updates_frame_trans [OF add_related_update_frame frame])
        then show ?thesis using first ok by simp
      qed
    qed
  qed
qed

lemma loop_raises:
  assumes "find (stops gf (meta (model q))) items = Some it"
  shows "\<exists>q'. add_update_values_loop gf items vs q = Inl (raised_at gf (meta (model q)) it, q')"
  using assms
proof (induction items arbitrary: vs q)
  case Nil
  then show ?case by simp
next
  case (Cons item items)
  obtain nm val where item: "item = (nm, val)" by (cases item)
  show ?case
  proof (cases "gf (meta (model q)) nm")
    case (Inl err)
    then have "stops gf (meta (model q)) item" by (simp add: item stops_def)
    with Cons.prems have "it = item" by simp
    then show ?thesis by (simp add: item Inl raised_at_def)
  next
    case (Inr resolved)
    obtain fld mdl direct m2m where resolved: "resolved = (fld, mdl, direct, m2m)"
      by (cases resolved)
    note gf = Inr [unfolded resolved]
    show ?thesis
    proof (cases "\<not> direct \<or> m2m")
      case True
      then have "stops gf (meta (model q)) item" by (simp add: item stops_def gf)
      with Cons.prems have "it = item" by simp
      then show ?thesis using True by (simp add: item gf raised_at_def)
    next
      case False
      then have "\<not> stops gf (meta (model q)) item" by (simp add: item stops_def gf)
      with Cons.prems have rest: "find (stops gf (meta (model q))) items = Some it" by simp
      show ?thesis
      proof (cases mdl)
        case None
        from Cons.IH [of q "vs @ [(fld, mdl, val)]", OF rest] None False
        show ?thesis by (simp add: item gf)
      next
        case (Some ancestor)
        let ?q1 = "add_related_update ancestor fld val q"
        from rest have "find (stops gf (meta (model ?q1))) items = Some it" by simp
        from Cons.IH [of ?q1 vs, OF this] Some False
        show ?thesis by (simp add: item gf)
      qed
    qed
  qed
qed

lemma add_update_values_Inl:
  "add_update_values gf vals q = Inl (e, q')
   \<longleftrightarrow> add_update_values_loop gf vals [] q = Inl (e, q')"
  by (auto simp: add_update_values_def split: sum.splits)

lemma add_update_values_raises_iff:
  "(\<exists>q'. add_update_values gf vals q = Inl (e, q'))
   \<longleftrightarrow> (\<exists>it. find (stops gf (meta (model q))) vals = Some it
           \<and> e = raised_at gf (meta (model q)) it)"
proof
  assume "\<exists>q'. add_update_values gf vals q = Inl (e, q')"
  then obtain q' where "add_update_values_loop gf vals [] q = Inl (e, q')"
    by (auto simp: add_update_values_Inl)
  from loop_raised [OF this]
  show "\<exists>it. find (stops gf (meta (model q))) vals = Some it
           \<and> e = raised_at gf (meta (model q)) it"
    by simp
next
  assume "\<exists>it. find (stops gf (meta (model q))) vals = Some it
           \<and> e = raised_at gf (meta (model q)) it"
  then obtain it where found: "find (stops gf (meta (model q))) vals = Some it"
    and e: "e = raised_at gf (meta (model q)) it"
    by blast
  from loop_raises [OF found, of "[]"] e
  show "\<exists>q'. add_update_values gf vals q = Inl (e, q')"
    by (simp add: add_update_values_Inl)
qed

text \<open>
  Claim C7. When \<^verbatim>\<open>add_update_values\<close> raises, \<^verbatim>\<open>self.values\<close> is what
  it was before the call, and the query differs from the one before the call in
  \<^verbatim>\<open>related_updates\<close> at most. That attribute can have changed: there is a call
  that raises and leaves an entry for an ancestor model that was not there before.
\<close>

theorem add_update_values_failure:
  assumes "add_update_values get_field_by_name vals q = Inl (e, q')"
  shows "values_upd q' = values_upd q
       \<and> q'\<lparr>related_updates := related_updates q\<rparr> = q
       \<and> (\<exists>gf items err (q0 :: UpdateQuery) q1.
             add_update_values gf items q0 = Inl (err, q1)
             \<and> related_updates q0 parent_model = None
             \<and> related_updates q1 parent_model = Some [(headline_field, None, PyStr ''Hello'')])"
proof -
  from assms have "add_update_values_loop get_field_by_name vals [] q = Inl (e, q')"
    by (simp add: add_update_values_Inl)
  from loop_raised [OF this] have frame: "q'\<lparr>related_updates := related_updates q\<rparr> = q"
    by simp
  then have "values_upd (q'\<lparr>related_updates := related_updates q\<rparr>) = values_upd q"
    by simp
  then have vals: "values_upd q' = values_upd q" by simp
  let ?q1 = "sample_update_query\<lparr>related_updates :=
               [parent_model \<mapsto> [(headline_field, None, PyStr ''Hello'')]]\<rparr>"
  have "add_update_values sample_get_field_by_name
          [(''headline'', PyStr ''Hello''), (''tags'', PyNone)] sample_update_query
        = Inl (FieldError tags_field, ?q1)"
    by (simp add: add_update_values_def sample_get_field_by_name_def add_related_update_def
        sample_update_query_def UpdateQuery.fields_def Query.extend_def sample_query_def)
  moreover have "related_updates sample_update_query parent_model = None"
    by (simp add: sample_update_query_def UpdateQuery.fields_def Query.extend_def sample_query_def)
  moreover have "related_updates ?q1 parent_model = Some [(headline_field, None, PyStr ''Hello'')]"
    by simp
  ultimately have ex: "\<exists>gf items err (q0 :: UpdateQuery) q1.
             add_update_values gf items q0 = Inl (err, q1)
             \<and> related_updates q0 parent_model = None
             \<and> related_updates q1 parent_model = Some [(headline_field, None, PyStr ''Hello'')]"
    by blast
  from vals frame ex show ?thesis by (intro conjI)
qed

theorem add_update_values_failure_witness:
  "add_update_values sample_get_field_by_name
     [(''headline'', PyStr ''Hello''), (''tags'', PyNone)] sample_update_query
   = Inl (FieldError tags_field,
          sample_update_query\<lparr>related_updates :=
            [parent_model \<mapsto> [(headline_field, None, PyStr ''Hello'')]]\<rparr>)
   \<and> values_upd (sample_update_query\<lparr>related_updates :=
            [parent_model \<mapsto> [(headline_field, None, PyStr ''Hello'')]]\<rparr>)
       = values_upd sample_update_query"
proof -
  have raised: "add_update_values sample_get_field_by_name
     [(''headline'', PyStr ''Hello''), (''tags'', PyNone)] sample_update_query
   = Inl (FieldError tags_field,
          sample_update_query\<lparr>related_updates :=
            [parent_model \<mapsto> [(headline_field, None, PyStr ''Hello'')]]\<rparr>)"
    by (simp add: add_update_values_def sample_get_field_by_name_def add_related_update_def
        sample_update_query_def UpdateQuery.fields_def Query.extend_def sample_query_def)
  from add_update_values_failure [OF raised] raised show ?thesis by simp
qed

section \<open>Date and aggregate queries\<close>

text \<open>
  Claim C4. When \<^verbatim>\<open>setup_joins\<close> returns at least one join alias and
  \<^verbatim>\<open>set_extra_mask([])\<close> leaves the three attributes assigned before it alone,
  \<^verbatim>\<open>add_date_select\<close> returns normally with a query whose select list is the
  single \<open>Date\<close> over the last join alias and the field's column, whose
  \<^verbatim>\<open>select_fields\<close> is \<^verbatim>\<open>[None]\<close>, whose \<^verbatim>\<open>select_related\<close>
  is false, whose \<^verbatim>\<open>distinct\<close> is true, and whose \<^verbatim>\<open>order_by\<close> is
  \<^verbatim>\<open>[1]\<close> for the order \<^verbatim>\<open>'ASC'\<close> and \<^verbatim>\<open>[-1]\<close> for any other.
\<close>

theorem add_date_select_result:
  assumes joins: "setup_joins [name fld] (get_meta q) (fst (get_initial_alias q)) False
                    (snd (get_initial_alias q)) = (joins, q1)"
    and nonempty: "joins \<noteq> []"
    and mask: "select (set_extra_mask [] (q1\<lparr>select := [Date (last joins, column fld) lookup_type],
                 select_fields := [None], select_related := False\<rparr>))
                 = [Date (last joins, column fld) lookup_type]
               \<and> select_fields (set_extra_mask [] (q1\<lparr>select := [Date (last joins, column fld) lookup_type],
                 select_fields := [None], select_related := False\<rparr>)) = [None]
               \<and> select_related (set_extra_mask [] (q1\<lparr>select := [Date (last joins, column fld) lookup_type],
                 select_fields := [None], select_related := False\<rparr>)) = False"
  shows "\<exists>q'. add_date_select get_meta get_initial_alias setup_joins set_extra_mask
                 fld lookup_type order q = Inr q'
           \<and> select q' = [Date (last joins, column fld) lookup_type]
           \<and> select_fields q' = [None]
           \<and> select_related q' = False
           \<and> distinct_q q' = True
           \<and> order_by q' = (if order = PyStr ''ASC'' then [1] else [- 1])"
  using nonempty mask
  by (simp add: add_date_select_def Let_def and_or_def case_prod_beta joins)

theorem add_date_select_result_witness:
  "\<exists>q'. add_date_select (\<lambda>q. meta (model q)) sample_get_initial_alias sample_setup_joins
           sample_set_extra_mask sample_field ''year'' (PyStr ''DESC'') sample_query = Inr q'
        \<and> select q' = [Date (''blog_entry'', ''id'') ''year'']
        \<and> select_fields q' = [None]
        \<and> select_related q' = False
        \<and> distinct_q q' = True
        \<and> order_by q' = [- 1]"
proof -
  have joins: "sample_setup_joins [name sample_field] (meta (model sample_query))
                 (fst (sample_get_initial_alias sample_query)) False
                 (snd (sample_get_initial_alias sample_query))
               = ([''blog_entry''], sample_query\<lparr>tables := [''blog_entry'']\<rparr>)"
    by (simp add: sample_setup_joins_def sample_get_initial_alias_def sample_query_def
        sample_model_def)
  have ne: "[''blog_entry''] \<noteq> []" by simp
  have mask: "select (sample_set_extra_mask [] (sample_query\<lparr>tables := [''blog_entry''],
                 select := [Date (last [''blog_entry''], column sample_field) ''year''],
                 select_fields := [None], select_related := False\<rparr>))
                 = [Date (last [''blog_entry''], column sample_field) ''year'']
               \<and> select_fields (sample_set_extra_mask [] (sample_query\<lparr>tables := [''blog_entry''],
                 select := [Date (last [''blog_entry''], column sample_field) ''year''],
                 select_fields := [None], select_related := False\<rparr>)) = [None]
               \<and> select_related (sample_set_extra_mask [] (sample_query\<lparr>tables := [''blog_entry''],
                 select := [Date (last [''blog_entry''], column sample_field) ''year''],
                 select_fields := [None], select_related := False\<rparr>)) = False"
    by (simp add: sample_set_extra_mask_def)
  note inst = add_date_select_result
    [where setup_joins = sample_setup_joins and fld = sample_field
       and get_meta = "\<lambda>q. meta (model q)" and q = sample_query
       and get_initial_alias = sample_get_initial_alias and joins = "[''blog_entry'']"
       and ?q1.0 = "sample_query\<lparr>tables := [''blog_entry'']\<rparr>"
       and set_extra_mask = sample_set_extra_mask and lookup_type = "''year''"
       and order = "PyStr ''DESC''"]
  from inst [OF joins ne mask]
  show ?thesis by (simp add: sample_field_def)
qed

text \<open>
  Claim C5. \<^verbatim>\<open>add_subquery\<close> stores the SQL string and the parameters that the
  inner query's compiler renders with column aliases into \<^verbatim>\<open>subquery\<close> and
  \<^verbatim>\<open>sub_params\<close>; putting the old values of these two attributes back gives the
  aggregate query as it was, and the one compiler call made is that \<^verbatim>\<open>as_sql\<close>.
\<close>

theorem add_subquery_result:
  "subquery (fst (add_subquery compiler_of as_sql query using (q, trace)))
     = fst (as_sql (compiler_of query) using query True)
   \<and> sub_params (fst (add_subquery compiler_of as_sql query using (q, trace)))
     = snd (as_sql (compiler_of query) using query True)
   \<and> (fst (add_subquery compiler_of as_sql query using (q, trace)))
       \<lparr>subquery := subquery q, sub_params := sub_params q\<rparr> = q
   \<and> snd (add_subquery compiler_of as_sql query using (q, trace))
     = trace @ [AsSql (compiler_of query) using query True]"
  by (simp add: add_subquery_def Let_def)

theorem add_subquery_result_witness:
  "fst (add_subquery (\<lambda>q. ''SQLCompiler'') sample_as_sql sample_query None
          (sample_aggregate_query, []))
   = sample_aggregate_query\<lparr>subquery := ''SELECT id AS Col1 FROM blog_entry WHERE id > %s'',
                             sub_params := [PyInt 3]\<rparr>"
  using add_subquery_result [of "\<lambda>q. ''SQLCompiler''" sample_as_sql sample_query None
      sample_aggregate_query "[]"]
  by (simp add: add_subquery_def Let_def sample_as_sql_def)

section \<open>Execution goes through the compiler\<close>

lemma only_executes_Nil [simp]: "only_executes c u a []"
  by (simp add: only_executes_def)

lemma only_executes_append [simp]:
  "only_executes c u a (xs @ ys) \<longleftrightarrow> only_executes c u a xs \<and> only_executes c u a ys"
  by (simp add: only_executes_def)

lemma only_executes_single [simp]:
  "only_executes c u a [ExecuteSql c' u' q a'] \<longleftrightarrow> c' = c \<and> u' = u \<and> a' = a"
  by (simp add: only_executes_def)

lemma delete_run_refl: "delete_run u st st"
  by (simp add: delete_run_def)

lemma delete_run_trans:
  assumes "delete_run u st st1" and "delete_run u st1 st2"
  shows "delete_run u st st2"
proof -
  from assms obtain evs1 evs2 where
    t1: "snd st1 = snd st @ evs1" and o1: "only_executes ''SQLDeleteCompiler'' u PyNone evs1" and
    t2: "snd st2 = snd st1 @ evs2" and o2: "only_executes ''SQLDeleteCompiler'' u PyNone evs2"
    by (auto simp: delete_run_def)
  from assms have f1: "(fst st1)\<lparr>tables := tables (fst st), where_q := where_q (fst st)\<rparr> = fst st"
    and f2: "(fst st2)\<lparr>tables := tables (fst st1), where_q := where_q (fst st1)\<rparr> = fst st1"
    by (simp_all add: delete_run_def)
  have "(fst st2)\<lparr>tables := tables (fst st1), where_q := where_q (fst st1)\<rparr>
          \<lparr>tables := tables (fst st), where_q := where_q (fst st)\<rparr>
        = (fst st1)\<lparr>tables := tables (fst st), where_q := where_q (fst st)\<rparr>"
    by (simp only: f2)
  then have "(fst st2)\<lparr>tables := tables (fst st), where_q := where_q (fst st)\<rparr> = fst st"
    using f1 by simp
  moreover have "snd st2 = snd st @ (evs1 @ evs2)" by (simp add: t1 t2)
  moreover have "only_executes ''SQLDeleteCompiler'' u PyNone (evs1 @ evs2)" using o1 o2 by simp
  ultimately show ?thesis unfolding delete_run_def by blast
qed

lemma do_query_eq:
  "do_query table wh u (q, tr) =
     (q\<lparr>tables := [table], where_q := wh\<rparr>,
      tr @ [ExecuteSql ''SQLDeleteCompiler'' u (q\<lparr>tables := [table], where_q := wh\<rparr>) PyNone])"
  by (simp add: do_query_def execute_sql_def DeleteQuery_compiler_def Let_def)

lemma do_query_run: "delete_run u st (do_query table wh u st)"
proof (cases st)
  case (Pair q tr)
  show ?thesis by (simp add: Pair do_query_eq delete_run_def)
qed

lemma for_each_run:
  assumes body: "\<And>x s s'. body x s = Inr s' \<Longrightarrow> delete_run u s s'"
    and run: "for_each body xs s = Inr s'"
  shows "delete_run u s s'"
  using run
proof (induction xs arbitrary: s)
  case Nil
  then show ?case by (simp add: delete_run_refl)
next
  case (Cons x xs)
  then obtain s1 where s1: "body x s = Inr s1" and rest: "for_each body xs s1 = Inr s'"
    by (auto split: sum.splits)
  from delete_run_trans [OF body [OF s1] Cons.IH [OF rest]] show ?case .
qed

lemma for_each_total:
  assumes "\<And>x s. \<exists>s'. body x s = Inr s'"
  shows "\<exists>s'. for_each body xs s = Inr s'"
proof (induction xs arbitrary: s)
  case Nil
  show ?case by simp
next
  case (Cons x xs)
  from assms obtain s1 where "body x s = Inr s1" by blast
  with Cons.IH [of s1] show ?case by simp
qed

lemma related_body_run: "related_body c pks u rf off s = Inr s' \<Longrightarrow> delete_run u s s'"
  by (auto simp: related_body_def Let_def do_query_run)

lemma m2m_body_run: "m2m_body c nz pks u f w1 off s = Inr s' \<Longrightarrow> delete_run u s s'"
  by (auto simp: m2m_body_def Let_def do_query_run)

lemma related_loop_run:
  assumes "related_loop c pks u rf s = Inr s'"
  shows "delete_run u s s'"
proof (cases "is_GenericRelation rf")
  case True
  with assms show ?thesis by (simp add: related_loop_def delete_run_refl)
next
  case False
  with assms obtain offs where
    "for_each (related_body c pks u rf) offs s = Inr s'"
    by (auto simp: related_loop_def split: sum.splits)
  then show ?thesis by (rule for_each_run [rotated]) (rule related_body_run)
qed

lemma m2m_loop_run:
  assumes "m2m_loop c gf ctid nz cls pks u f s = Inr s'"
  shows "delete_run u s s'"
proof -
  from assms obtain offs w1 where
    "for_each (m2m_body c nz pks u f w1) offs s = Inr s'"
    by (auto simp: m2m_loop_def Let_def split: sum.splits if_splits)
  then show ?thesis by (rule for_each_run [rotated]) (rule m2m_body_run)
qed

lemma delete_batch_related_run:
  assumes "delete_batch_related c gf ctid nz pks u st = Inr st'"
  shows "delete_run u st st'"
proof -
  from assms obtain st1 where
    one: "for_each (related_loop c pks u) (related_objects (meta (model (fst st)))) st = Inr st1"
    and two: "for_each (m2m_loop c gf ctid nz (model (fst st)) pks u)
                (many_to_many (meta (model (fst st)))) st1 = Inr st'"
    by (auto simp: delete_batch_related_def Let_def split: sum.splits)
  have "delete_run u st st1"
    using one by (rule for_each_run [rotated]) (rule related_loop_run)
  moreover have "delete_run u st1 st'"
    using two by (rule for_each_run [rotated]) (rule m2m_loop_run)
  ultimately show ?thesis by (rule delete_run_trans)
qed

lemma delete_batch_run:
  assumes "delete_batch c pks u st = Inr st'"
  shows "delete_run u st st'"
proof -
  obtain q tr where st: "st = (q, tr)" by (cases st)
  from assms obtain offs where
    st': "st' = fold (delete_batch_body c pks u) offs (q, tr)"
    by (auto simp: delete_batch_def st split: sum.splits)
  have "only_executes ''SQLDeleteCompiler'' u PyNone
          (map (\<lambda>off. delete_event u q (py_slice pks off (off + c))) offs)"
    by (induction offs) (simp_all add: only_executes_def delete_event_def)
  then show ?thesis
    by (auto simp: st st' fold_delete_batch_body delete_run_def)
qed

lemma py_range_total: "0 < c \<Longrightarrow> \<exists>offs. py_range a b c = Inr offs"
  by (simp add: py_range_def)

lemma delete_batch_related_total:
  assumes "0 < c"
  shows "\<exists>st'. delete_batch_related c gf ctid nz pks u st = Inr st'"
proof -
  have rel: "\<And>rf s. \<exists>s'. related_loop c pks u rf s = Inr s'"
  proof -
    fix rf s
    from py_range_total [OF assms] obtain offs where
      offs: "py_range 0 (int (length pks)) c = Inr offs" by blast
    have "\<exists>s'. for_each (related_body c pks u rf) offs s = Inr s'"
      by (rule for_each_total) (simp add: related_body_def Let_def)
    then show "\<exists>s'. related_loop c pks u rf s = Inr s'"
      by (simp add: related_loop_def offs)
  qed
  have m2m: "\<And>cls f s. \<exists>s'. m2m_loop c gf ctid nz cls pks u f s = Inr s'"
  proof -
    fix cls f s
    from py_range_total [OF assms] obtain offs where
      offs: "py_range 0 (int (length pks)) c = Inr offs" by blast
    have "\<And>w1. \<exists>s'. for_each (m2m_body c nz pks u f w1) offs s = Inr s'"
      by (rule for_each_total) (simp add: m2m_body_def Let_def)
    then show "\<exists>s'. m2m_loop c gf ctid nz cls pks u f s = Inr s'"
      by (simp add: m2m_loop_def offs Let_def)
  qed
  from for_each_total [of "related_loop c pks u", OF rel] obtain st1 where
    "for_each (related_loop c pks u) (related_objects (meta (model (fst st)))) st = Inr st1"
    by blast
  moreover from for_each_total [of "m2m_loop c gf ctid nz (model (fst st)) pks u", OF m2m]
  obtain st' where
    "for_each (m2m_loop c gf ctid nz (model (fst st)) pks u)
       (many_to_many (meta (model (fst st)))) st1 = Inr st'"
    by blast
  ultimately show ?thesis by (simp add: delete_batch_related_def Let_def)
qed

lemma clear_related_run:
  assumes "clear_related c rf pks u (q, tr) = Inr st'"
  shows "(\<exists>evs. snd st' = tr @ evs \<and> only_executes ''SQLUpdateCompiler'' u PyNone evs)
         \<and> (fst st')\<lparr>where_q := where_q q, values_upd := values_upd q\<rparr> = q"
proof -
  from assms obtain offs where
    st': "st' = fold (clear_related_body c rf pks u) offs (q, tr)"
    by (auto simp: clear_related_def split: sum.splits)
  have "only_executes ''SQLUpdateCompiler'' u PyNone
          (map (\<lambda>off. clear_event u rf q (py_slice pks off (off + c))) offs)"
    by (induction offs) (simp_all add: only_executes_def clear_event_def)
  then show ?thesis
    by (auto simp: st' fold_clear_related_body)
qed

lemma insert_query_eq:
  "insert_query Query_init connection_of get_placeholder result_of mdl vals ret_id raw_values using
     trace =
   (result_of (ExecuteSql ''SQLInsertCompiler'' using
      (geo_insert_values get_placeholder vals (connection_of using) raw_values
         (InsertQuery_init (Query_init mdl))) (PyBool ret_id)),
    trace @ [ExecuteSql ''SQLInsertCompiler'' using
      (geo_insert_values get_placeholder vals (connection_of using) raw_values
         (InsertQuery_init (Query_init mdl))) (PyBool ret_id)])"
  by (simp add: insert_query_def execute_sql_def InsertQuery_compiler_def Let_def)

text \<open>
  Claim C6. \<^verbatim>\<open>do_query\<close> sets \<^verbatim>\<open>tables\<close> to the one table and
  \<^verbatim>\<open>where\<close> to the given node, changes nothing else of the query, and makes one
  call, \<^verbatim>\<open>execute_sql(None)\<close> on the delete compiler for \<^verbatim>\<open>using\<close>. With a
  positive chunk size the batch methods return, every compiler call they add to the trace
  is such an \<^verbatim>\<open>execute_sql(None)\<close> (none is an \<^verbatim>\<open>as_sql\<close>), and they leave
  every attribute but \<^verbatim>\<open>tables\<close> and \<^verbatim>\<open>where\<close> as it was;
  \<^verbatim>\<open>clear_related\<close> does the same on the update compiler, changing
  \<^verbatim>\<open>where\<close> and \<^verbatim>\<open>values\<close> only; \<^verbatim>\<open>insert_query\<close> makes one call,
  \<^verbatim>\<open>execute_sql(return_id)\<close> on the insert compiler, and returns its result.
\<close>

theorem execution_through_compiler:
  assumes "0 < GET_ITERATOR_CHUNK_SIZE"
  shows "do_query table wh using (q, trace) =
           (q\<lparr>tables := [table], where_q := wh\<rparr>,
            trace @ [ExecuteSql ''SQLDeleteCompiler'' using
                       (q\<lparr>tables := [table], where_q := wh\<rparr>) PyNone])
       \<and> (\<exists>st'. delete_batch GET_ITERATOR_CHUNK_SIZE pk_list using (q, trace) = Inr st'
              \<and> delete_run using (q, trace) st')
       \<and> (\<exists>st'. delete_batch_related GET_ITERATOR_CHUNK_SIZE get_field content_type_id nonzero
                  pk_list using (q, trace) = Inr st'
              \<and> delete_run using (q, trace) st')
       \<and> (\<exists>st' evs. clear_related GET_ITERATOR_CHUNK_SIZE related_field pk_list using
                  (uq, utrace) = Inr st'
              \<and> snd st' = utrace @ evs
              \<and> only_executes ''SQLUpdateCompiler'' using PyNone evs
              \<and> (fst st')\<lparr>where_q := where_q uq, values_upd := values_upd uq\<rparr> = uq)
       \<and> insert_query Query_init connection_of get_placeholder result_of mdl vals ret_id
            raw_values using itrace =
           (result_of (ExecuteSql ''SQLInsertCompiler'' using
              (geo_insert_values get_placeholder vals (connection_of using) raw_values
                 (InsertQuery_init (Query_init mdl))) (PyBool ret_id)),
            itrace @ [ExecuteSql ''SQLInsertCompiler'' using
              (geo_insert_values get_placeholder vals (connection_of using) raw_values
                 (InsertQuery_init (Query_init mdl))) (PyBool ret_id)])"
proof -
  from delete_batch_result [OF assms] obtain st1 where
    db: "delete_batch GET_ITERATOR_CHUNK_SIZE pk_list using (q, trace) = Inr st1" by blast
  from delete_batch_related_total [OF assms] obtain st2 where
    dbr: "delete_batch_related GET_ITERATOR_CHUNK_SIZE get_field content_type_id nonzero
            pk_list using (q, trace) = Inr st2" by blast
  from clear_related_result [OF assms] obtain st3 where
    cr: "clear_related GET_ITERATOR_CHUNK_SIZE related_field pk_list using (uq, utrace) = Inr st3"
    by blast
  have a: "\<exists>st'. delete_batch GET_ITERATOR_CHUNK_SIZE pk_list using (q, trace) = Inr st'
              \<and> delete_run using (q, trace) st'"
    using db delete_batch_run [OF db] by blast
  have b: "\<exists>st'. delete_batch_related GET_ITERATOR_CHUNK_SIZE get_field content_type_id nonzero
                  pk_list using (q, trace) = Inr st'
              \<and> delete_run using (q, trace) st'"
    using dbr delete_batch_related_run [OF dbr] by blast
  have c: "\<exists>st' evs. clear_related GET_ITERATOR_CHUNK_SIZE related_field pk_list using
                  (uq, utrace) = Inr st'
              \<and> snd st' = utrace @ evs
              \<and> only_executes ''SQLUpdateCompiler'' using PyNone evs
              \<and> (fst st')\<lparr>where_q := where_q uq, values_upd := values_upd uq\<rparr> = uq"
    using cr clear_related_run [OF cr] by blast
  show ?thesis
    by (intro conjI do_query_eq a b c insert_query_eq)
qed

theorem execution_through_compiler_witness:
  "0 < (2::int)
   \<and> (\<exists>st'. delete_batch_related 2 (\<lambda>f nm. sample_field) (\<lambda>cls. PyInt 9) (\<lambda>w. children w \<noteq> [])
               [PyInt 1, PyInt 2, PyInt 3] None (sample_m2m_query, []) = Inr st'
            \<and> delete_run None (sample_m2m_query, []) st')
   \<and> snd (insert_query (\<lambda>mdl. sample_query) (\<lambda>using. ()) geo_get_placeholder (\<lambda>ev. PyInt 1)
            sample_model [(sample_field, PyInt 7)] True False None []) =
       [ExecuteSql ''SQLInsertCompiler'' None
          (sample_insert_query\<lparr>columns := [''id''], values_ins := [PyStr ''%s''],
                                params := [PyInt 7]\<rparr>) (PyBool True)]"
proof -
  have pos: "0 < (2::int)" by simp
  note inst = execution_through_compiler [OF pos,
      where pk_list = "[PyInt 1, PyInt 2, PyInt 3]" and ?using = None
        and q = sample_m2m_query and trace = "[]" and get_field = "\<lambda>f nm. sample_field"
        and content_type_id = "\<lambda>cls. PyInt 9" and nonzero = "\<lambda>w. children w \<noteq> []"
        and Query_init = "\<lambda>mdl. sample_query" and connection_of = "\<lambda>using. ()"
        and get_placeholder = geo_get_placeholder and result_of = "\<lambda>ev. PyInt 1"
        and mdl = sample_model and vals = "[(sample_field, PyInt 7)]" and ret_id = True
        and raw_values = False and itrace = "[]" and table = "''blog_entry''"
        and wh = where_class and related_field = sample_field and uq = sample_update_query
        and utrace = "[]"]
  have "geo_insert_values geo_get_placeholder [(sample_field, PyInt 7)] () False
          (InsertQuery_init sample_query)
        = sample_insert_query\<lparr>columns := [''id''], values_ins := [PyStr ''%s''],
                                params := [PyInt 7]\<rparr>"
    by (simp add: geo_insert_values_params placeholder_for_def geo_get_placeholder_def
        sample_field_def sample_insert_query_def InsertQuery_init_def InsertQuery.fields_def
        Query.extend_def sample_query_def)
  with inst pos show ?thesis by simp
qed

section \<open>The errors of the slice, and the exported classes\<close>

lemma delete_batch_Inl:
  "delete_batch c pks u st = Inl e \<longleftrightarrow> c = 0 \<and> e = ValueError"
  by (auto simp: delete_batch_def py_range_def)

lemma clear_related_Inl:
  "clear_related c rf pks u st = Inl e \<longleftrightarrow> c = 0 \<and> e = ValueError"
  by (auto simp: clear_related_def py_range_def)

lemma add_date_select_Inl:
  "add_date_select get_meta get_initial_alias setup_joins set_extra_mask fld lookup_type order q
     = Inl e
   \<longleftrightarrow> fst (setup_joins [name fld] (get_meta q) (fst (get_initial_alias q)) False
             (snd (get_initial_alias q))) = []
       \<and> e = IndexError"
  by (auto simp: add_date_select_def Let_def case_prod_beta)

lemma for_each_guard:
  "for_each (\<lambda>x s. if P x then Inl e else Inr s) xs s
     = (if \<exists>x \<in> set xs. P x then Inl e else Inr s)"
  by (induction xs) simp_all

lemma py_range_returns: "c \<noteq> 0 \<Longrightarrow> \<exists>offs. py_range a b c = Inr offs"
  by (simp add: py_range_def)

lemma delete_batch_related_returns:
  assumes "c \<noteq> 0"
  shows "\<exists>st'. delete_batch_related c gf ctid nz pks u st = Inr st'"
proof -
  from py_range_returns [OF assms] obtain offs where
    offs: "py_range 0 (int (length pks)) c = Inr offs" by blast
  have rel: "\<And>rf s. \<exists>s'. related_loop c pks u rf s = Inr s'"
  proof -
    fix rf s
    have "\<exists>s'. for_each (related_body c pks u rf) offs s = Inr s'"
      by (rule for_each_total) (simp add: related_body_def Let_def)
    then show "\<exists>s'. related_loop c pks u rf s = Inr s'"
      by (simp add: related_loop_def offs)
  qed
  have m2m: "\<And>cls f s. \<exists>s'. m2m_loop c gf ctid nz cls pks u f s = Inr s'"
  proof -
    fix cls f s
    have "\<And>w1. \<exists>s'. for_each (m2m_body c nz pks u f w1) offs s = Inr s'"
      by (rule for_each_total) (simp add: m2m_body_def Let_def)
    then show "\<exists>s'. m2m_loop c gf ctid nz cls pks u f s = Inr s'"
      by (simp add: m2m_loop_def offs Let_def)
  qed
  from for_each_total [of "related_loop c pks u", OF rel] obtain st1 where
    "for_each (related_loop c pks u) (related_objects (meta (model (fst st)))) st = Inr st1"
    by blast
  moreover from for_each_total [of "m2m_loop c gf ctid nz (model (fst st)) pks u", OF m2m]
  obtain st' where
    "for_each (m2m_loop c gf ctid nz (model (fst st)) pks u)
       (many_to_many (meta (model (fst st)))) st1 = Inr st'"
    by blast
  ultimately show ?thesis by (simp add: delete_batch_related_def Let_def)
qed

lemma delete_batch_related_zero:
  "delete_batch_related 0 gf ctid nz pks u st =
     (if (\<exists>rf \<in> set (related_objects (meta (model (fst st)))). \<not> is_GenericRelation rf)
         \<or> many_to_many (meta (model (fst st))) \<noteq> []
      then Inl ValueError else Inr st)"
proof -
  have rel: "related_loop 0 pks u
             = (\<lambda>rf s. if \<not> is_GenericRelation rf then Inl ValueError else Inr s)"
    by (intro ext) (simp add: related_loop_def py_range_def)
  have m2m: "m2m_loop 0 gf ctid nz (model (fst st)) pks u
             = (\<lambda>f s. if True then Inl ValueError else Inr s)"
    by (intro ext) (simp add: m2m_loop_def py_range_def Let_def)
  have reached: "(\<exists>f \<in> set (many_to_many (meta (model (fst st)))). True)
                 \<longleftrightarrow> many_to_many (meta (model (fst st))) \<noteq> []"
    by (cases "many_to_many (meta (model (fst st)))") auto
  show ?thesis
    unfolding delete_batch_related_def Let_def rel m2m for_each_guard reached
    by simp
qed

lemma delete_batch_related_Inl:
  "delete_batch_related c gf ctid nz pks u st = Inl e
   \<longleftrightarrow> c = 0 \<and> e = ValueError
       \<and> ((\<exists>rf \<in> set (related_objects (meta (model (fst st)))). \<not> is_GenericRelation rf)
          \<or> many_to_many (meta (model (fst st))) \<noteq> [])"
proof (cases "c = 0")
  case True
  then show ?thesis by (auto simp: delete_batch_related_zero)
next
  case False
  from delete_batch_related_returns [OF False] obtain st' where
    "delete_batch_related c gf ctid nz pks u st = Inr st'" by blast
  with False show ?thesis by simp
qed

lemma resolved_stops_refused:
  assumes "\<forall>item \<in> set vals. \<exists>t. gf opts (fst item) = Inr t"
  shows "find (stops gf opts) vals = find (refused gf opts) vals"
  using assms
proof (induction vals)
  case Nil
  show ?case by simp
next
  case (Cons item vals)
  then obtain t where "gf opts (fst item) = Inr t" by auto
  then have "stops gf opts item = refused gf opts item"
    by (simp add: stops_def refused_def)
  with Cons show ?case by simp
qed

lemma refused_raised_at:
  "refused gf opts item \<Longrightarrow> \<exists>fld. raised_at gf opts item = FieldError fld"
  by (auto simp: refused_def raised_at_def split: sum.splits)

text \<open>
  Claim C1, as the code has it. \<^verbatim>\<open>add_update_values\<close> raises exactly when the
  loop stops at some item: at a name the field lookup does not resolve, whose exception
  then leaves the method unchanged, or at a name that resolves to a field that is not
  direct or is many-to-many, for which the method raises \<^verbatim>\<open>FieldError\<close>. What is
  raised is decided by the first such item in the order of iteration. When every name of
  the dictionary resolves, the method raises if and only if some name is refused, and
  what it raises is a \<^verbatim>\<open>FieldError\<close>. No other method has a
  \<^verbatim>\<open>raise\<close>: \<^verbatim>\<open>delete_batch\<close> and \<^verbatim>\<open>clear_related\<close> fail only with
  the \<^verbatim>\<open>ValueError\<close> of \<^verbatim>\<open>range\<close>, exactly when the chunk size is zero;
  \<^verbatim>\<open>delete_batch_related\<close> likewise, when moreover a loop over the primary keys is
  reached; \<^verbatim>\<open>add_date_select\<close> fails only with \<^verbatim>\<open>IndexError\<close>, exactly when
  \<^verbatim>\<open>setup_joins\<close> returns no join alias. The remaining methods have no error
  result.
\<close>

theorem slice_errors:
  "((\<exists>q'. add_update_values get_field_by_name vals uq = Inl (e, q'))
      \<longleftrightarrow> (\<exists>item. find (stops get_field_by_name (meta (model uq))) vals = Some item
              \<and> e = raised_at get_field_by_name (meta (model uq)) item))
   \<and> ((\<forall>item \<in> set vals. \<exists>t. get_field_by_name (meta (model uq)) (fst item) = Inr t) \<longrightarrow>
        ((\<exists>err q'. add_update_values get_field_by_name vals uq = Inl (err, q'))
           \<longleftrightarrow> (\<exists>item \<in> set vals. refused get_field_by_name (meta (model uq)) item))
        \<and> (\<forall>err q'. add_update_values get_field_by_name vals uq = Inl (err, q') \<longrightarrow>
              (\<exists>fld. err = FieldError fld)))
   \<and> (delete_batch GET_ITERATOR_CHUNK_SIZE pk_list using (q, trace) = Inl e1
        \<longleftrightarrow> GET_ITERATOR_CHUNK_SIZE = 0 \<and> e1 = ValueError)
   \<and> (delete_batch_related GET_ITERATOR_CHUNK_SIZE get_field content_type_id nonzero
          pk_list using (q, trace) = Inl e2
        \<longleftrightarrow> GET_ITERATOR_CHUNK_SIZE = 0 \<and> e2 = ValueError
            \<and> ((\<exists>rf \<in> set (related_objects (meta (model q))). \<not> is_GenericRelation rf)
               \<or> many_to_many (meta (model q)) \<noteq> []))
   \<and> (clear_related GET_ITERATOR_CHUNK_SIZE related_field pk_list using (uq, utrace) = Inl e3
        \<longleftrightarrow> GET_ITERATOR_CHUNK_SIZE = 0 \<and> e3 = ValueError)
   \<and> (add_date_select get_meta get_initial_alias setup_joins set_extra_mask fld
          lookup_type order dq = Inl e4
        \<longleftrightarrow> fst (setup_joins [name fld] (get_meta dq) (fst (get_initial_alias dq)) False
                  (snd (get_initial_alias dq))) = []
            \<and> e4 = IndexError)"
proof -
  let ?opts = "meta (model uq)"
  have resolved: "(\<forall>item \<in> set vals. \<exists>t. get_field_by_name ?opts (fst item) = Inr t) \<longrightarrow>
        ((\<exists>err q'. add_update_values get_field_by_name vals uq = Inl (err, q'))
           \<longleftrightarrow> (\<exists>item \<in> set vals. refused get_field_by_name ?opts item))
        \<and> (\<forall>err q'. add_update_values get_field_by_name vals uq = Inl (err, q') \<longrightarrow>
              (\<exists>fld. err = FieldError fld))"
  proof
    assume all: "\<forall>item \<in> set vals. \<exists>t. get_field_by_name ?opts (fst item) = Inr t"
    note same = resolved_stops_refused
      [where gf = get_field_by_name and opts = "meta (model uq)" and vals = vals, OF all]
    have raises: "\<And>err. (\<exists>q'. add_update_values get_field_by_name vals uq = Inl (err, q'))
        \<longleftrightarrow> (\<exists>item. find (refused get_field_by_name ?opts) vals = Some item
                \<and> err = raised_at get_field_by_name ?opts item)"
      by (simp only: add_update_values_raises_iff same)
    have iff: "(\<exists>err q'. add_update_values get_field_by_name vals uq = Inl (err, q'))
           \<longleftrightarrow> (\<exists>item \<in> set vals. refused get_field_by_name ?opts item)"
    proof
      assume "\<exists>err q'. add_update_values get_field_by_name vals uq = Inl (err, q')"
      then obtain err item where
        "find (refused get_field_by_name ?opts) vals = Some item"
        using raises by blast
      then show "\<exists>item \<in> set vals. refused get_field_by_name ?opts item"
        by (auto simp: find_Some_iff)
    next
      assume "\<exists>item \<in> set vals. refused get_field_by_name ?opts item"
      then have "find (refused get_field_by_name ?opts) vals \<noteq> None"
        by (auto simp: find_None_iff)
      then obtain item where "find (refused get_field_by_name ?opts) vals = Some item"
        by blast
      with raises [of "raised_at get_field_by_name ?opts item"]
      show "\<exists>err q'. add_update_values get_field_by_name vals uq = Inl (err, q')"
        by blast
    qed
    have only: "\<forall>err q'. add_update_values get_field_by_name vals uq = Inl (err, q') \<longrightarrow>
              (\<exists>fld. err = FieldError fld)"
    proof (intro allI impI)
      fix err q'
      assume "add_update_values get_field_by_name vals uq = Inl (err, q')"
      then obtain item where found: "find (refused get_field_by_name ?opts) vals = Some item"
        and err: "err = raised_at get_field_by_name ?opts item"
        using raises [of err] by blast
      from found have "refused get_field_by_name ?opts item"
        by (auto simp: find_Some_iff)
      from refused_raised_at [OF this] err show "\<exists>fld. err = FieldError fld" by simp
    qed
    from iff only
    show "((\<exists>err q'. add_update_values get_field_by_name vals uq = Inl (err, q'))
           \<longleftrightarrow> (\<exists>item \<in> set vals. refused get_field_by_name ?opts item))
        \<and> (\<forall>err q'. add_update_values get_field_by_name vals uq = Inl (err, q') \<longrightarrow>
              (\<exists>fld. err = FieldError fld))"
      by (rule conjI)
  qed
  have dbr: "delete_batch_related GET_ITERATOR_CHUNK_SIZE get_field content_type_id nonzero
          pk_list using (q, trace) = Inl e2
        \<longleftrightarrow> GET_ITERATOR_CHUNK_SIZE = 0 \<and> e2 = ValueError
            \<and> ((\<exists>rf \<in> set (related_objects (meta (model q))). \<not> is_GenericRelation rf)
               \<or> many_to_many (meta (model q)) \<noteq> [])"
    using delete_batch_related_Inl
      [where c = GET_ITERATOR_CHUNK_SIZE and gf = get_field and ctid = content_type_id
         and nz = nonzero and pks = pk_list and u = "using" and st = "(q, trace)" and e = e2]
    by simp
  show ?thesis
    by (intro conjI add_update_values_raises_iff resolved delete_batch_Inl dbr
        clear_related_Inl add_date_select_Inl)
qed

theorem slice_errors_witness:
  "(\<exists>q'. add_update_values sample_get_field_by_name
            [(''id'', PyInt 1), (''tags'', PyNone)] sample_update_query
          = Inl (FieldError tags_field, q'))
   \<and> (\<exists>fld q'. add_update_values sample_get_field_by_name
            [(''id'', PyInt 1), (''tags'', PyNone)] sample_update_query
          = Inl (FieldError fld, q'))
   \<and> (\<exists>q'. add_update_values sample_get_field_by_name
            [(''headline'', PyStr ''Hello''), (''nope'', PyInt 1)] sample_update_query
          = Inl (FieldDoesNotExist ''nope'', q'))
   \<and> delete_batch 100 [PyInt 1] None (sample_query, []) \<noteq> Inl ValueError
   \<and> delete_batch 0 [PyInt 1] None (sample_query, []) = Inl ValueError"
proof -
  note first = slice_errors
    [where get_field_by_name = sample_get_field_by_name
       and vals = "[(''id'', PyInt 1), (''tags'', PyNone)]" and uq = sample_update_query
       and e = "FieldError tags_field" and GET_ITERATOR_CHUNK_SIZE = 100
       and pk_list = "[PyInt 1]" and ?using = None and q = sample_query and trace = "[]"
       and ?e1.0 = ValueError]
  note second = slice_errors
    [where get_field_by_name = sample_get_field_by_name
       and vals = "[(''headline'', PyStr ''Hello''), (''nope'', PyInt 1)]"
       and uq = sample_update_query
       and e = "FieldDoesNotExist ''nope''" and GET_ITERATOR_CHUNK_SIZE = 0
       and pk_list = "[PyInt 1]" and ?using = None and q = sample_query and trace = "[]"
       and ?e1.0 = ValueError]
  have stop1: "find (stops sample_get_field_by_name (meta (model sample_update_query)))
                 [(''id'', PyInt 1), (''tags'', PyNone)] = Some (''tags'', PyNone)"
    by (simp add: stops_def sample_get_field_by_name_def)
  have at1: "raised_at sample_get_field_by_name (meta (model sample_update_query))
               (''tags'', PyNone) = FieldError tags_field"
    by (simp add: raised_at_def sample_get_field_by_name_def)
  have stop2: "find (stops sample_get_field_by_name (meta (model sample_update_query)))
                 [(''headline'', PyStr ''Hello''), (''nope'', PyInt 1)] = Some (''nope'', PyInt 1)"
    by (simp add: stops_def sample_get_field_by_name_def)
  have at2: "raised_at sample_get_field_by_name (meta (model sample_update_query))
               (''nope'', PyInt 1) = FieldDoesNotExist ''nope''"
    by (simp add: raised_at_def sample_get_field_by_name_def)
  have resolve: "\<forall>item \<in> set [(''id'', PyInt 1), (''tags'', PyNone)].
                   \<exists>t. sample_get_field_by_name (meta (model sample_update_query)) (fst item)
                         = Inr t"
    by (auto simp: sample_get_field_by_name_def)
  from first [THEN conjunct1] stop1 at1
  have a: "\<exists>q'. add_update_values sample_get_field_by_name
            [(''id'', PyInt 1), (''tags'', PyNone)] sample_update_query
          = Inl (FieldError tags_field, q')"
    by simp
  from first [THEN conjunct2, THEN conjunct1, THEN mp, OF resolve, THEN conjunct2] a
  have a': "\<exists>fld q'. add_update_values sample_get_field_by_name
            [(''id'', PyInt 1), (''tags'', PyNone)] sample_update_query
          = Inl (FieldError fld, q')"
    by blast
  from second [THEN conjunct1] stop2 at2
  have b: "\<exists>q'. add_update_values sample_get_field_by_name
            [(''headline'', PyStr ''Hello''), (''nope'', PyInt 1)] sample_update_query
          = Inl (FieldDoesNotExist ''nope'', q')"
    by simp
  from first [THEN conjunct2, THEN conjunct2, THEN conjunct1]
  have c: "delete_batch 100 [PyInt 1] None (sample_query, []) \<noteq> Inl ValueError"
    by simp
  from second [THEN conjunct2, THEN conjunct2, THEN conjunct1]
  have d: "delete_batch 0 [PyInt 1] None (sample_query, []) = Inl ValueError"
    by simp
  from a a' b c d show ?thesis by (intro conjI)
qed

text \<open>
  The claim as it was stated fails on the dictionary with the items
  \<^verbatim>\<open>('nope', 1)\<close> and \<^verbatim>\<open>('tags', None)\<close>, in this order, for a model that has
  no field \<^verbatim>\<open>nope\<close> and a many-to-many field \<^verbatim>\<open>tags\<close>: a named field
  resolves to a many-to-many field, yet what the call raises is the lookup's
  \<^verbatim>\<open>FieldDoesNotExist\<close> and not a \<^verbatim>\<open>FieldError\<close>.
\<close>

theorem slice_errors_counterexample:
  "add_update_values sample_get_field_by_name
     [(''nope'', PyInt 1), (''tags'', PyNone)] sample_update_query
   = Inl (FieldDoesNotExist ''nope'', sample_update_query)
   \<and> sample_get_field_by_name (meta (model sample_update_query)) ''tags''
       = Inr (tags_field, None, True, True)
   \<and> sample_get_field_by_name (meta (model sample_update_query)) ''nope''
       = Inl (FieldDoesNotExist ''nope'')"
  by (simp add: add_update_values_def sample_get_field_by_name_def)

text \<open>
  Claim C8. The classes that \<^verbatim>\<open>django/db/models/sql/subqueries.py\<close> defines are,
  in order, the names of its \<^verbatim>\<open>__all__\<close>: five different names, each class with a
  compiler of its own, and one class for each of the five operations of the purpose
  statement. The gis module adds no class for a further operation: its one class derives
  from the class for inserting a row and is not a name of \<^verbatim>\<open>__all__\<close>.
\<close>

theorem module_exports:
  "map class_name module_classes = module_all
   \<and> distinct module_all
   \<and> length module_all = 5
   \<and> distinct (map compiler_attribute module_classes)
   \<and> map query_class_for [Delete_rows, Update_rows, Insert_row, Extract_dates, Compute_aggregates]
       = module_all
   \<and> inj query_class_for
   \<and> range query_class_for = set module_all
   \<and> map base_class gis_module_classes = [query_class_for Insert_row]
   \<and> set (map class_name gis_module_classes) \<inter> set module_all = {}"
proof -
  have inj: "inj query_class_for"
  proof (rule injI)
    fix x y
    assume "query_class_for x = query_class_for y"
    then show "x = y" by (cases x; cases y; simp)
  qed
  have univ: "(UNIV :: operation set)
              = {Delete_rows, Update_rows, Insert_row, Extract_dates, Compute_aggregates}"
  proof
    show "(UNIV :: operation set)
            \<subseteq> {Delete_rows, Update_rows, Insert_row, Extract_dates, Compute_aggregates}"
    proof
      fix x :: operation
      show "x \<in> {Delete_rows, Update_rows, Insert_row, Extract_dates, Compute_aggregates}"
        by (cases x) simp_all
    qed
  qed simp
  have range: "range query_class_for = set module_all"
    by (simp only: univ) (simp add: module_all_def insert_commute)
  have names: "map class_name module_classes = module_all"
    by (simp add: module_classes_def module_all_def)
  have compilers: "distinct (map compiler_attribute module_classes)"
    by (simp add: module_classes_def DeleteQuery_compiler_def UpdateQuery_compiler_def
        InsertQuery_compiler_def DateQuery_compiler_def AggregateQuery_compiler_def)
  have dist: "distinct module_all" by (simp add: module_all_def)
  have len: "length module_all = 5" by (simp add: module_all_def)
  have ops: "map query_class_for
               [Delete_rows, Update_rows, Insert_row, Extract_dates, Compute_aggregates]
             = module_all"
    by (simp add: module_all_def)
  have gis: "map base_class gis_module_classes = [query_class_for Insert_row]"
    by (simp add: gis_module_classes_def)
  have gis_names: "set (map class_name gis_module_classes) \<inter> set module_all = {}"
    by (simp add: gis_module_classes_def module_all_def)
  show ?thesis by (intro conjI names dist len compilers ops inj range gis gis_names)
qed

theorem module_exports_witness:
  "query_class_for Insert_row \<in> set module_all
   \<and> map class_name module_classes
       = [''DeleteQuery'', ''UpdateQuery'', ''InsertQuery'', ''DateQuery'', ''AggregateQuery'']"
proof -
  from module_exports have "range query_class_for = set module_all"
    and "map class_name module_classes = module_all" by simp_all
  then show ?thesis by (auto simp: module_all_def)
qed

end
